theory Spec2Isabelle
  imports Complex_Main "HOL-Library.AList" "HOL-Library.Word"
begin

section \<open>Python values used by \<open>main.py\<close>\<close>

text \<open>
  A Python \<open>str\<close> is a sequence of Unicode code points, and slicing (\<open>s[:50]\<close>) counts
  code points. The literals of \<open>main.py\<close> contain code points beyond ASCII (the check
  mark U+2705, the cross mark U+274C, the warning sign U+26A0 with its variation selector
  U+FE0F, the bullet U+2022 and the en dash U+2013), so a \<open>str\<close> is modelled as the list
  of its code points; \<open>ascii\<close> embeds an ASCII literal.
\<close>

type_synonym pystr = "nat list"

definition ascii :: "string \<Rightarrow> pystr" where
  "ascii s = map of_char s"

definition CHECK_MARK :: nat where "CHECK_MARK = 9989"
definition CROSS_MARK :: nat where "CROSS_MARK = 10060"
definition WARNING_SIGN :: nat where "WARNING_SIGN = 9888"
definition VARIATION_SELECTOR_16 :: nat where "VARIATION_SELECTOR_16 = 65039"
definition BULLET :: nat where "BULLET = 8226"
definition EN_DASH :: nat where "EN_DASH = 8211"

text \<open>The decimal digits of a natural number, as \<open>str(n)\<close> and \<open>%d\<close> write them.\<close>

definition digit :: "nat \<Rightarrow> nat" where
  "digit d = of_char CHR ''0'' + d"

fun decimal :: "nat \<Rightarrow> pystr" where
  "decimal n = (if n < 10 then [digit n] else decimal (n div 10) @ [digit (n mod 10)])"

declare decimal.simps [simp del]

text \<open>
  JSON-like values returned by the handlers. A \<open>dict\<close> keeps insertion order and an
  assignment to an existing key keeps the key's position, which is what
  \<^const>\<open>AList.update\<close> does on an association list. All keys of \<open>main.py\<close> are ASCII.
\<close>

datatype json = JNull | JStr pystr | JArr "json list" | JObj "(string \<times> json) list"

type_synonym pydict = "(string \<times> json) list"

text \<open>
  Exceptions are values. \<open>except Exception\<close> catches the instances of \<open>Exception\<close>;
  \<open>SystemExit\<close> and \<open>KeyboardInterrupt\<close> derive from \<open>BaseException\<close> only and pass
  through it. \<open>ModuleNotFoundError\<close> is a subclass of \<open>ImportError\<close>.
\<close>

datatype exn_class =
    ImportError | ModuleNotFoundError | IndexError | KeyError | AttributeError
  | OtherException | SystemExit | KeyboardInterrupt

datatype exn = Exn (class_of: exn_class) (str_of: pystr)

fun is_Exception :: "exn \<Rightarrow> bool" where
  "is_Exception (Exn SystemExit _) = False"
| "is_Exception (Exn KeyboardInterrupt _) = False"
| "is_Exception (Exn _ _) = True"

fun is_ImportError :: "exn \<Rightarrow> bool" where
  "is_ImportError (Exn ImportError _) = True"
| "is_ImportError (Exn ModuleNotFoundError _) = True"
| "is_ImportError (Exn _ _) = False"

section \<open>The greeting handlers\<close>

definition read_root :: pydict where
  "read_root = [(''message'', JStr (ascii ''Hello from FastAPI Backend!''))]"

definition hello :: pydict where
  "hello = [(''message'', JStr (ascii ''Hello from the backend API!''))]"

section \<open>The diagnostics handler\<close>

text \<open>
  The handler reads two things from outside: the process environment (\<open>os.getenv\<close>) and
  the outcome of \<open>from database import db\<close>. The \<open>database\<close> module is optional and is
  not part of the repository, so its behaviour is an input: the import raises, or it binds
  \<open>db\<close> to \<open>None\<close> or to a handle. Of a handle the code uses the attribute \<open>name\<close>, when
  \<open>hasattr\<close> finds it, and the method \<open>list_collection_names\<close>, which returns a list or
  raises.
\<close>

record db_handle =
  db_name :: "pystr option"
  list_collection_names :: "exn + pystr list"

datatype import_outcome = ImportRaises exn | Imported "db_handle option"

type_synonym environ = "string \<rightharpoonup> pystr"

text \<open>\<open>os.getenv(k)\<close> used as a condition: true iff the variable is set and non-empty.\<close>

definition getenv_truthy :: "environ \<Rightarrow> string \<Rightarrow> bool" where
  "getenv_truthy env k = (case env k of None \<Rightarrow> False | Some v \<Rightarrow> v \<noteq> [])"

definition initial_response :: pydict where
  "initial_response =
     [(''backend'', JStr (CHECK_MARK # ascii '' Running'')),
      (''database'', JStr (CROSS_MARK # ascii '' Not Available'')),
      (''database_url'', JNull),
      (''database_name'', JNull),
      (''connection_status'', JStr (ascii ''Not Connected'')),
      (''collections'', JArr [])]"

text \<open>The body of the \<open>try\<close> block once \<open>db\<close> is bound to a handle (lines 45 to 54).\<close>

definition probe_handle :: "db_handle \<Rightarrow> pydict \<Rightarrow> exn + pydict" where
  "probe_handle db response =
     (let response = AList.update ''database'' (JStr (CHECK_MARK # ascii '' Available'')) response;
          response = AList.update ''database_url'' (JStr (CHECK_MARK # ascii '' Configured'')) response;
          response = AList.update ''database_name''
                       (case db_name db of Some n \<Rightarrow> JStr n
                        | None \<Rightarrow> JStr (CHECK_MARK # ascii '' Connected'')) response;
          response = AList.update ''connection_status'' (JStr (ascii ''Connected'')) response
      in case list_collection_names db of
           Inr collections \<Rightarrow>
             Inr (AList.update ''database'' (JStr (CHECK_MARK # ascii '' Connected & Working''))
                   (AList.update ''collections'' (JArr (map JStr (take 10 collections))) response))
         | Inl e \<Rightarrow>
             if is_Exception e
             then Inr (AList.update ''database''
                        (JStr ([WARNING_SIGN, VARIATION_SELECTOR_16]
                               @ ascii ''  Connected but Error: '' @ take 50 (str_of e))) response)
             else Inl e)"

text \<open>
  \<open>test_database\<close>: the result is \<open>Inl e\<close> when the exception \<open>e\<close> leaves the handler
  and \<open>Inr response\<close> when the handler returns the dictionary.
\<close>

definition test_database :: "environ \<Rightarrow> import_outcome \<Rightarrow> exn + pydict" where
  "test_database env imp =
     (let response = initial_response;
          tried =
            (case imp of
               Imported (Some db) \<Rightarrow> probe_handle db response
             | Imported None \<Rightarrow>
                 Inr (AList.update ''database''
                       (JStr ([WARNING_SIGN, VARIATION_SELECTOR_16]
                              @ ascii ''  Available but not initialized'')) response)
             | ImportRaises e \<Rightarrow>
                 if is_ImportError e
                 then Inr (AList.update ''database''
                            (JStr (CROSS_MARK
                                   # ascii '' Database module not found (run enable-database first)''))
                            response)
                 else if is_Exception e
                 then Inr (AList.update ''database''
                            (JStr (CROSS_MARK # ascii '' Error: '' @ take 50 (str_of e))) response)
                 else Inl e)
      in case tried of
           Inl e \<Rightarrow> Inl e
         | Inr response \<Rightarrow>
             (let response = AList.update ''database_url''
                    (JStr (if getenv_truthy env ''DATABASE_URL''
                           then CHECK_MARK # ascii '' Set''
                           else CROSS_MARK # ascii '' Not Set'')) response;
                  response = AList.update ''database_name''
                    (JStr (if getenv_truthy env ''DATABASE_NAME''
                           then CHECK_MARK # ascii '' Set''
                           else CROSS_MARK # ascii '' Not Set'')) response
              in Inr response))"

section \<open>The presentation library, as \<open>main.py\<close> uses it\<close>

text \<open>
  \<open>main.py\<close> builds its document through the object model of the presentation library,
  which is not part of the repository. The model keeps the part of that object model the
  code touches: a presentation has slide layouts and an ordered list of slides; a slide has
  a layout and an ordered list of shapes; a shape is a placeholder (with its \<open>idx\<close>) or a
  text box (with its position and size in inches); both hold a text frame, an ordered list
  of paragraphs; a paragraph holds its content (runs and line breaks, in order), an indent
  level, an alignment and a font.
  Lengths are kept as the rational number of inches or points the code passes to
  \<open>Inches\<close> and \<open>Pt\<close>. A property the code has not set is \<open>None\<close> (inherited).
\<close>

datatype PP_ALIGN = LEFT | CENTER | RIGHT | JUSTIFY

record font =
  bold :: "bool option"
  font_size :: "nat option"

record run =
  r_text :: pystr
  r_font :: font

datatype inline = Run run | LineBreak

record pptx_paragraph =
  p_content :: "inline list"
  level :: nat
  alignment :: "PP_ALIGN option"
  p_font :: font

record text_frame =
  paragraphs :: "pptx_paragraph list"
  word_wrap :: "bool option"

datatype shape =
    Placeholder nat text_frame
  | TextBox rat rat rat rat text_frame

record layout =
  layout_name :: string
  layout_placeholders :: "nat list"

record slide =
  slide_layout :: layout
  shapes :: "shape list"

record presentation =
  slide_layouts :: "layout list"
  slides :: "slide list"
  slide_width :: rat
  slide_height :: rat

definition default_font :: font where
  "default_font = \<lparr>bold = None, font_size = None\<rparr>"

definition empty_paragraph :: pptx_paragraph where
  "empty_paragraph = \<lparr>p_content = [], level = 0, alignment = None, p_font = default_font\<rparr>"

text \<open>
  Reading \<open>p.text\<close>: the concatenation of the texts of the content of the paragraph, where
  the text of a line break is a vertical tab (U+000B).
\<close>

fun inline_text :: "inline \<Rightarrow> pystr" where
  "inline_text (Run r) = r_text r"
| "inline_text LineBreak = [11]"

definition paragraph_text :: "pptx_paragraph \<Rightarrow> pystr" where
  "paragraph_text p = concat (map inline_text (p_content p))"

text \<open>
  Assigning \<open>run.text = s\<close>: the library stores \<open>s\<close> with every control character in the
  ranges U+0000 to U+0008 and U+000B to U+001F replaced by the escape \<open>_xHHHH_\<close> (four
  upper-case hexadecimal digits); the horizontal tab and the line feed are kept.
\<close>

definition is_ctrl_char :: "nat \<Rightarrow> bool" where
  "is_ctrl_char c = (c \<le> 8 \<or> (11 \<le> c \<and> c \<le> 31))"

definition hex_digit :: "nat \<Rightarrow> nat" where
  "hex_digit d = (if d < 10 then of_char CHR ''0'' + d else of_char CHR ''A'' + (d - 10))"

definition escape_char :: "nat \<Rightarrow> pystr" where
  "escape_char c =
     ascii ''_x''
     @ map hex_digit [c div 4096 mod 16, c div 256 mod 16, c div 16 mod 16, c mod 16]
     @ ascii ''_''"

definition escape_ctrl_chars :: "pystr \<Rightarrow> pystr" where
  "escape_ctrl_chars s = concat (map (\<lambda>c. if is_ctrl_char c then escape_char c else [c]) s)"

definition set_run_text :: "pystr \<Rightarrow> run \<Rightarrow> run" where
  "set_run_text s r = r\<lparr>r_text := escape_ctrl_chars s\<rparr>"

text \<open>
  Assigning \<open>p.text = t\<close>: the library removes the content of the paragraph, keeps the
  paragraph's own properties, splits \<open>t\<close> at every line feed and vertical tab, and appends
  the pieces in order: a line break before every piece but the first, and a run holding
  the piece when the piece is not empty.
\<close>

fun split_breaks :: "pystr \<Rightarrow> pystr list" where
  "split_breaks [] = [[]]"
| "split_breaks (c # cs) =
     (if c = 10 \<or> c = 11 then [] # split_breaks cs
      else (case split_breaks cs of [] \<Rightarrow> [[c]] | l # ls \<Rightarrow> (c # l) # ls))"

fun append_pieces :: "nat \<Rightarrow> pystr list \<Rightarrow> inline list \<Rightarrow> inline list" where
  "append_pieces idx [] cs = cs"
| "append_pieces idx (r_str # rest) cs =
     (let cs = (if idx > 0 then cs @ [LineBreak] else cs);
          cs = (if r_str \<noteq> []
                then cs @ [Run (set_run_text r_str \<lparr>r_text = [], r_font = default_font\<rparr>)]
                else cs)
      in append_pieces (Suc idx) rest cs)"

definition append_text :: "pystr \<Rightarrow> pptx_paragraph \<Rightarrow> pptx_paragraph" where
  "append_text t p = p\<lparr>p_content := append_pieces 0 (split_breaks t) (p_content p)\<rparr>"

definition set_paragraph_text :: "pystr \<Rightarrow> pptx_paragraph \<Rightarrow> pptx_paragraph" where
  "set_paragraph_text t p = append_text t (p\<lparr>p_content := []\<rparr>)"

text \<open>A new placeholder or text box holds one empty paragraph; a new text box does not wrap.\<close>

definition placeholder_text_frame :: text_frame where
  "placeholder_text_frame = \<lparr>paragraphs = [empty_paragraph], word_wrap = None\<rparr>"

definition textbox_text_frame :: text_frame where
  "textbox_text_frame = \<lparr>paragraphs = [empty_paragraph], word_wrap = Some False\<rparr>"

fun text_frame_of :: "shape \<Rightarrow> text_frame" where
  "text_frame_of (Placeholder _ tf) = tf"
| "text_frame_of (TextBox _ _ _ _ tf) = tf"

fun set_text_frame :: "text_frame \<Rightarrow> shape \<Rightarrow> shape" where
  "set_text_frame tf (Placeholder i _) = Placeholder i tf"
| "set_text_frame tf (TextBox l t w h _) = TextBox l t w h tf"

fun is_placeholder :: "nat \<Rightarrow> shape \<Rightarrow> bool" where
  "is_placeholder i (Placeholder j _) = (i = j)"
| "is_placeholder i (TextBox _ _ _ _ _) = False"

fun is_textbox :: "shape \<Rightarrow> bool" where
  "is_textbox (TextBox _ _ _ _ _) = True"
| "is_textbox (Placeholder _ _) = False"

text \<open>\<open>prs.slide_layouts[i]\<close> raises \<open>IndexError\<close> out of range.\<close>

definition slide_layouts_getitem :: "presentation \<Rightarrow> nat \<Rightarrow> exn + layout" where
  "slide_layouts_getitem prs i =
     (if i < length (slide_layouts prs) then Inr (slide_layouts prs ! i)
      else Inl (Exn IndexError (ascii ''slide layout index out of range'')))"

text \<open>
  \<open>prs.slides.add_slide(layout)\<close>: the new slide gets one empty placeholder for each
  placeholder of the layout that slides inherit. The model appends the slide to the
  presentation once the builder has finished writing to it; the code appends it first and
  writes through the reference, which gives the same presentation when the builder returns.
\<close>

definition add_slide :: "layout \<Rightarrow> slide" where
  "add_slide lay =
     \<lparr>slide_layout = lay,
      shapes = map (\<lambda>i. Placeholder i placeholder_text_frame) (layout_placeholders lay)\<rparr>"

text \<open>
  \<open>slide.placeholders[idx]\<close> raises \<open>KeyError\<close> when the slide has no placeholder with
  that \<open>idx\<close>. \<open>slide.shapes.title\<close> is the placeholder with \<open>idx\<close> 0, or \<open>None\<close>, and
  assigning to an attribute of \<open>None\<close> raises \<open>AttributeError\<close>. In the messages the
  code point 39 is the apostrophe; the string of a \<open>KeyError\<close> is its message in quotes.
\<close>

definition placeholders_getitem :: "slide \<Rightarrow> nat \<Rightarrow> exn + text_frame" where
  "placeholders_getitem s i =
     (case find (is_placeholder i) (shapes s) of
        Some sh \<Rightarrow> Inr (text_frame_of sh)
      | None \<Rightarrow>
          Inl (Exn KeyError
                ([39] @ ascii ''no placeholder on this slide with idx == '' @ decimal i @ [39])))"

fun update_first :: "('a \<Rightarrow> bool) \<Rightarrow> ('a \<Rightarrow> 'a) \<Rightarrow> 'a list \<Rightarrow> 'a list" where
  "update_first P f [] = []"
| "update_first P f (x # xs) = (if P x then f x # xs else x # update_first P f xs)"

definition set_placeholder_frame :: "nat \<Rightarrow> text_frame \<Rightarrow> slide \<Rightarrow> slide" where
  "set_placeholder_frame i tf s =
     s\<lparr>shapes := update_first (is_placeholder i) (set_text_frame tf) (shapes s)\<rparr>"

text \<open>
  \<open>shape.text = t\<close> replaces the paragraphs of the shape's text frame by one new paragraph
  for each line of \<open>t\<close> (split at the line feeds), to which the line is appended as above.
\<close>

fun split_lines :: "pystr \<Rightarrow> pystr list" where
  "split_lines [] = [[]]"
| "split_lines (c # cs) =
     (if c = 10 then [] # split_lines cs
      else (case split_lines cs of [] \<Rightarrow> [[c]] | l # ls \<Rightarrow> (c # l) # ls))"

definition set_frame_text :: "pystr \<Rightarrow> text_frame \<Rightarrow> text_frame" where
  "set_frame_text t tf =
     tf\<lparr>paragraphs := map (\<lambda>l. append_text l empty_paragraph) (split_lines t)\<rparr>"

definition set_title_text :: "pystr \<Rightarrow> slide \<Rightarrow> exn + slide" where
  "set_title_text t s =
     (case find (is_placeholder 0) (shapes s) of
        None \<Rightarrow>
          Inl (Exn AttributeError
                ([39] @ ascii ''NoneType'' @ [39] @ ascii '' object has no attribute ''
                 @ [39] @ ascii ''text'' @ [39]))
      | Some sh \<Rightarrow> Inr (set_placeholder_frame 0 (set_frame_text t (text_frame_of sh)) s))"

definition set_placeholder_text :: "nat \<Rightarrow> pystr \<Rightarrow> slide \<Rightarrow> exn + slide" where
  "set_placeholder_text i t s =
     (case placeholders_getitem s i of
        Inl e \<Rightarrow> Inl e
      | Inr tf \<Rightarrow> Inr (set_placeholder_frame i (set_frame_text t tf) s))"

text \<open>\<open>tf.clear()\<close> keeps the first paragraph, emptied of its content, and drops the others.\<close>

definition clear :: "text_frame \<Rightarrow> exn + text_frame" where
  "clear tf =
     (case paragraphs tf of
        [] \<Rightarrow> Inl (Exn IndexError (ascii ''tuple index out of range''))
      | p # _ \<Rightarrow> Inr (tf\<lparr>paragraphs := [p\<lparr>p_content := []\<rparr>]\<rparr>))"

text \<open>\<open>tf.add_paragraph()\<close> appends an empty paragraph.\<close>

definition add_paragraph :: "text_frame \<Rightarrow> text_frame" where
  "add_paragraph tf = tf\<lparr>paragraphs := paragraphs tf @ [empty_paragraph]\<rparr>"

text \<open>Writing to the paragraph a reference points at: the first one, or the last one added.\<close>

definition update_first_paragraph ::
    "(pptx_paragraph \<Rightarrow> pptx_paragraph) \<Rightarrow> text_frame \<Rightarrow> exn + text_frame" where
  "update_first_paragraph f tf =
     (case paragraphs tf of
        [] \<Rightarrow> Inl (Exn IndexError (ascii ''tuple index out of range''))
      | p # ps \<Rightarrow> Inr (tf\<lparr>paragraphs := f p # ps\<rparr>))"

definition update_last_paragraph :: "(pptx_paragraph \<Rightarrow> pptx_paragraph) \<Rightarrow> text_frame \<Rightarrow> text_frame" where
  "update_last_paragraph f tf =
     (case rev (paragraphs tf) of
        [] \<Rightarrow> tf
      | p # ps \<Rightarrow> tf\<lparr>paragraphs := rev ps @ [f p]\<rparr>)"

text \<open>Sequencing of steps that may raise: the first exception ends the sequence.\<close>

definition and_then :: "exn + 'a \<Rightarrow> ('a \<Rightarrow> exn + 'b) \<Rightarrow> exn + 'b" where
  "and_then m f = (case m of Inl e \<Rightarrow> Inl e | Inr x \<Rightarrow> f x)"

section \<open>The slide builders\<close>

definition add_title_slide :: "presentation \<Rightarrow> pystr \<Rightarrow> pystr \<Rightarrow> exn + presentation" where
  "add_title_slide prs title subtitle =
     and_then (slide_layouts_getitem prs 0) (\<lambda>lay.
     and_then (set_title_text title (add_slide lay)) (\<lambda>s.
     and_then (set_placeholder_text 1 subtitle s) (\<lambda>s.
     Inr (prs\<lparr>slides := slides prs @ [s]\<rparr>))))"

text \<open>
  The loop of \<open>_add_bullets_slide\<close> over \<open>enumerate(bullets)\<close>: \<open>i\<close> is the index of the
  bullet \<open>b\<close>. The first bullet is written to \<open>tf.paragraphs[0]\<close>, each later one to a
  paragraph added at the end.
\<close>

definition write_bullet :: "pystr \<Rightarrow> pptx_paragraph \<Rightarrow> pptx_paragraph" where
  "write_bullet b p = (set_paragraph_text b p)\<lparr>level := 0\<rparr>"

fun write_bullets :: "nat \<Rightarrow> pystr list \<Rightarrow> text_frame \<Rightarrow> exn + text_frame" where
  "write_bullets i [] tf = Inr tf"
| "write_bullets i (b # bs) tf =
     (case (if i = 0 then update_first_paragraph (write_bullet b) tf
            else Inr (update_last_paragraph (write_bullet b) (add_paragraph tf))) of
        Inl e \<Rightarrow> Inl e
      | Inr tf' \<Rightarrow> write_bullets (Suc i) bs tf')"

definition add_bullets_slide :: "presentation \<Rightarrow> pystr \<Rightarrow> pystr list \<Rightarrow> exn + presentation" where
  "add_bullets_slide prs title bullets =
     and_then (slide_layouts_getitem prs 1) (\<lambda>lay.
     and_then (set_title_text title (add_slide lay)) (\<lambda>s.
     and_then (placeholders_getitem s 1) (\<lambda>tf.
     and_then (clear tf) (\<lambda>tf.
     and_then (write_bullets 0 bullets tf) (\<lambda>tf.
     Inr (prs\<lparr>slides := slides prs @ [set_placeholder_frame 1 tf s]\<rparr>))))))"

text \<open>
  \<open>_add_two_column_slide\<close>: the inner loop adds one paragraph for each item; the body of
  the outer loop fills one box; the outer loop runs over the left box, then the right box.
\<close>

definition write_item :: "pystr \<Rightarrow> pptx_paragraph \<Rightarrow> pptx_paragraph" where
  "write_item it p =
     (let p = set_paragraph_text ([BULLET, 32] @ it) p;
          p = p\<lparr>level := 0\<rparr>
      in p\<lparr>p_font := (p_font p)\<lparr>font_size := Some 16\<rparr>\<rparr>)"

fun add_items :: "pystr list \<Rightarrow> text_frame \<Rightarrow> text_frame" where
  "add_items [] tf = tf"
| "add_items (it # items) tf =
     add_items items (update_last_paragraph (write_item it) (add_paragraph tf))"

definition write_heading :: "pystr \<Rightarrow> pptx_paragraph \<Rightarrow> pptx_paragraph" where
  "write_heading title_text p =
     (let r = \<lparr>r_text = [], r_font = default_font\<rparr>;
          r = set_run_text title_text r;
          r = r\<lparr>r_font := (r_font r)\<lparr>bold := Some True\<rparr>\<rparr>;
          r = r\<lparr>r_font := (r_font r)\<lparr>font_size := Some 20\<rparr>\<rparr>
      in p\<lparr>p_content := p_content p @ [Run r], alignment := Some LEFT\<rparr>)"

definition fill_column :: "pystr \<Rightarrow> pystr list \<Rightarrow> shape \<Rightarrow> exn + shape" where
  "fill_column title_text items box =
     (let tf = text_frame_of box;
          tf = tf\<lparr>word_wrap := Some True\<rparr>
      in and_then (update_first_paragraph (write_heading title_text) tf) (\<lambda>tf.
         Inr (set_text_frame (add_items items tf) box)))"

definition add_textbox :: "rat \<Rightarrow> rat \<Rightarrow> rat \<Rightarrow> rat \<Rightarrow> shape" where
  "add_textbox x y cx cy = TextBox x y cx cy textbox_text_frame"

definition add_two_column_slide ::
    "presentation \<Rightarrow> pystr \<Rightarrow> pystr \<Rightarrow> pystr list \<Rightarrow> pystr \<Rightarrow> pystr list \<Rightarrow> exn + presentation" where
  "add_two_column_slide prs title left_title left_items right_title right_items =
     and_then (slide_layouts_getitem prs 5) (\<lambda>lay.
     and_then (set_title_text title (add_slide lay)) (\<lambda>s.
     (let left_box = add_textbox (7 / 10) (16 / 10) (43 / 10) 5;
          right_box = add_textbox (52 / 10) (16 / 10) (43 / 10) 5
      in and_then (fill_column left_title left_items left_box) (\<lambda>left_box.
         and_then (fill_column right_title right_items right_box) (\<lambda>right_box.
         Inr (prs\<lparr>slides := slides prs @ [s\<lparr>shapes := shapes s @ [left_box, right_box]\<rparr>]\<rparr>))))))"

section \<open>The presentation assembler\<close>

text \<open>
  \<open>datetime.now().strftime('%d %B %Y')\<close>: the day of the month on two digits, the full
  month name of the current locale, the year in decimal. The clock and the locale are
  inputs.
\<close>

record datetime =
  year :: nat
  month :: nat
  day :: nat

definition two_digits :: "nat \<Rightarrow> pystr" where
  "two_digits n = (if n < 10 then digit 0 # decimal n else decimal n)"

definition strftime_d_B_Y :: "(nat \<Rightarrow> pystr) \<Rightarrow> datetime \<Rightarrow> pystr" where
  "strftime_d_B_Y full_month_name d =
     two_digits (day d) @ [32] @ full_month_name (month d) @ [32] @ decimal (year d)"

text \<open>
  An in-memory byte buffer: its contents and the position of the next read or write.
\<close>

record bytesio =
  getvalue :: "8 word list"
  tell :: nat

definition BytesIO :: bytesio where
  "BytesIO = \<lparr>getvalue = [], tell = 0\<rparr>"

definition seek :: "nat \<Rightarrow> bytesio \<Rightarrow> bytesio" where
  "seek n b = b\<lparr>tell := n\<rparr>"

text \<open>
  What the program takes from outside: the process environment, the outcome of importing
  the optional \<open>database\<close> module, the outcome of \<open>Presentation()\<close> (the library loads its
  bundled template), the clock, the month names of the locale, and the library's
  serializer \<open>prs.save\<close>, which writes the package into the given, empty buffer and leaves
  the position at its end, or raises.
\<close>

record world =
  os_environ :: environ
  database_import :: import_outcome
  Presentation :: "exn + presentation"
  datetime_now :: datetime
  full_month_name :: "nat \<Rightarrow> pystr"
  save :: "presentation \<Rightarrow> exn + 8 word list"

definition prs_save :: "world \<Rightarrow> presentation \<Rightarrow> bytesio \<Rightarrow> exn + bytesio" where
  "prs_save w prs bio =
     (case save w prs of
        Inl e \<Rightarrow> Inl e
      | Inr bytes \<Rightarrow> Inr (bio\<lparr>getvalue := bytes, tell := length bytes\<rparr>))"

definition ipb_fakultas :: "pystr list" where
  "ipb_fakultas =
     [ascii ''Fakultas Pertanian'',
      ascii ''Fakultas Perikanan dan Ilmu Kelautan (FPIK)'',
      ascii ''Fakultas Peternakan (FAPET)'',
      ascii ''Fakultas Kehutanan dan Lingkungan (FKL)'',
      ascii ''Fakultas Teknologi Pertanian (FATETA)'',
      ascii ''Fakultas Matematika dan Ilmu Pengetahuan Alam (FMIPA)'',
      ascii ''Fakultas Ekonomi dan Manajemen (FEM)'',
      ascii ''Fakultas Ekologi Manusia (FEMA)'',
      ascii ''Sekolah Kedokteran Hewan dan Biomedis (SKHB)'',
      ascii ''Sekolah Bisnis (SB)'',
      ascii ''Sekolah Vokasi (SV)'']"

definition kesehatan :: "pystr list" where
  "kesehatan =
     [ascii ''Fakultas Kedokteran (FK)'',
      ascii ''Fakultas Kedokteran Gigi (FKG)'',
      ascii ''Fakultas Ilmu Keperawatan (FIK)'',
      ascii ''Fakultas Kesehatan Masyarakat (FKM)'',
      ascii ''Fakultas Farmasi (FF)'']"

definition saintek :: "pystr list" where
  "saintek =
     [ascii ''Fakultas Teknik (FT)'',
      ascii ''Fakultas Matematika dan Ilmu Pengetahuan Alam (FMIPA)'',
      ascii ''Fakultas Ilmu Komputer (Fasilkom)'']"

definition soshum :: "pystr list" where
  "soshum =
     [ascii ''Fakultas Hukum (FH)'',
      ascii ''Fakultas Ekonomi dan Bisnis (FEB)'',
      ascii ''Fakultas Ilmu Pengetahuan Budaya (FIB)'',
      ascii ''Fakultas Psikologi (FPsi)'',
      ascii ''Fakultas Ilmu Sosial dan Ilmu Politik (FISIP)'',
      ascii ''Fakultas Ilmu Administrasi (FIA)'']"

definition lainnya :: "pystr list" where
  "lainnya =
     [ascii ''Program Pendidikan Vokasi'',
      ascii ''Sekolah Ilmu Lingkungan (SIL)'',
      ascii ''Sekolah Kajian Stratejik dan Global (SKSG)'']"

definition ipb_ringkasan :: "pystr list" where
  "ipb_ringkasan =
     [ascii ''Perguruan tinggi negeri unggul berlokasi di Bogor, Jawa Barat'',
      ascii ''Bertransformasi menjadi Techno-Socio Entrepreneurial University'',
      ascii ''Keunggulan: biosains tropika, pertanian, kelautan, dan teknologi terkait'',
      ascii ''Sering masuk Top 50 dunia untuk Pertanian & Kehutanan (QS WUR)'',
      ascii ''Akreditasi: Unggul; Program: Vokasi hingga Pascasarjana'',
      ascii ''Kampus utama di Dramaga; inovasi untuk kemandirian pangan & keberlanjutan'']"

definition ipb_jalur_masuk :: "pystr list" where
  "ipb_jalur_masuk =
     [ascii ''SNBP'',
      ascii ''SNBT'',
      ascii ''AFIRMASI DIKTI'',
      ascii ''MANDIRI (Ketua OSIS, Talenta, SM-IPB, BUD, Kelas Internasional)'']"

definition ui_ringkasan :: "pystr list" where
  "ui_ringkasan =
     [ascii ''PTN-BH tertua dan prestisius di Indonesia'',
      ascii ''Kampus utama Green Campus di Depok; Kampus Salemba di Jakarta'',
      ascii ''Kampus komprehensif dan multikultural, program Vokasi hingga Doktor'',
      ascii ''14 Fakultas mencakup Kesehatan, Saintek, dan Soshum'',
      ascii ''Peringkat teratas nasional dengan pengakuan global'',
      ascii ''Fokus: riset, inovasi, pengabdian masyarakat; lulusan berdaya saing tinggi'']"

definition ui_jalur_masuk :: "pystr list" where
  "ui_jalur_masuk =
     [ascii ''SNBP'',
      ascii ''SNBT'',
      ascii ''SIMAK UI'',
      ascii ''Talent Scouting'',
      ascii ''PPKB'',
      ascii ''Seleksi Jalur Prestasi'']"

text \<open>The closing slide, written inline in \<open>build_ipb_ui_presentation\<close> (lines 227 to 235).\<close>

definition write_closing :: "pystr \<Rightarrow> pptx_paragraph \<Rightarrow> pptx_paragraph" where
  "write_closing stamp p =
     (let p = set_paragraph_text (ascii ''Disusun otomatis pada '' @ stamp) p
      in p\<lparr>p_font := (p_font p)\<lparr>font_size := Some 18\<rparr>\<rparr>)"

definition add_closing_slide :: "presentation \<Rightarrow> pystr \<Rightarrow> exn + presentation" where
  "add_closing_slide prs stamp =
     and_then (slide_layouts_getitem prs 5) (\<lambda>lay.
     and_then (set_title_text (ascii ''Terima kasih'') (add_slide lay)) (\<lambda>s.
     (let box = add_textbox (12 / 10) (22 / 10) 8 3
      in and_then (update_first_paragraph (write_closing stamp) (text_frame_of box)) (\<lambda>tf.
         Inr (prs\<lparr>slides := slides prs @ [s\<lparr>shapes := shapes s @ [set_text_frame tf box]\<rparr>]\<rparr>)))))"

text \<open>
  Lines 118 to 235 of \<open>build_ipb_ui_presentation\<close>: the document before it is serialized.
\<close>

definition build_ipb_ui_document :: "world \<Rightarrow> exn + presentation" where
  "build_ipb_ui_document w =
     and_then (Presentation w) (\<lambda>prs.
     and_then (add_title_slide prs
                 (ascii ''Profil IPB University & Universitas Indonesia'')
                 (ascii ''Ringkasan jalur masuk dan fakultas (disusun otomatis)'')) (\<lambda>prs.
     and_then (add_bullets_slide prs
                 (ascii ''IPB University '' @ [EN_DASH] @ ascii '' Ringkasan'') ipb_ringkasan) (\<lambda>prs.
     and_then (add_bullets_slide prs
                 (ascii ''IPB '' @ [EN_DASH] @ ascii '' Jalur Masuk'') ipb_jalur_masuk) (\<lambda>prs.
     and_then (add_bullets_slide prs
                 (ascii ''IPB '' @ [EN_DASH] @ ascii '' Fakultas & Sekolah'') ipb_fakultas) (\<lambda>prs.
     and_then (add_bullets_slide prs
                 (ascii ''Universitas Indonesia '' @ [EN_DASH] @ ascii '' Ringkasan'') ui_ringkasan) (\<lambda>prs.
     and_then (add_bullets_slide prs
                 (ascii ''UI '' @ [EN_DASH] @ ascii '' Jalur Masuk'') ui_jalur_masuk) (\<lambda>prs.
     and_then (add_two_column_slide prs
                 (ascii ''UI '' @ [EN_DASH] @ ascii '' Fakultas (Kesehatan & Saintek)'')
                 (ascii ''Rumpun Kesehatan'') kesehatan (ascii ''Rumpun Saintek'') saintek) (\<lambda>prs.
     and_then (add_two_column_slide prs
                 (ascii ''UI '' @ [EN_DASH] @ ascii '' Fakultas (Soshum & Program Lain)'')
                 (ascii ''Rumpun Soshum'') soshum (ascii ''Program/Sekolah Lain'') lainnya) (\<lambda>prs.
     add_closing_slide prs (strftime_d_B_Y (full_month_name w) (datetime_now w)))))))))))"

definition build_ipb_ui_presentation :: "world \<Rightarrow> exn + bytesio" where
  "build_ipb_ui_presentation w =
     and_then (build_ipb_ui_document w) (\<lambda>prs.
     and_then (prs_save w prs BytesIO) (\<lambda>bio.
     Inr (seek 0 bio)))"

section \<open>The HTTP layer\<close>

datatype content = JSONContent json | StreamContent bytesio

record response =
  status_code :: nat
  media_type :: string
  headers :: "(string \<times> string) list"
  content :: content

definition StreamingResponse :: "bytesio \<Rightarrow> string \<Rightarrow> (string \<times> string) list \<Rightarrow> response" where
  "StreamingResponse stream mt hs =
     \<lparr>status_code = 200, media_type = mt, headers = hs, content = StreamContent stream\<rparr>"

definition JSONResponse :: "nat \<Rightarrow> pydict \<Rightarrow> response" where
  "JSONResponse sc d =
     \<lparr>status_code = sc, media_type = ''application/json'', headers = [],
      content = JSONContent (JObj d)\<rparr>"

definition generate_ppt_ipb_ui :: "world \<Rightarrow> exn + response" where
  "generate_ppt_ipb_ui w =
     (case build_ipb_ui_presentation w of
        Inr stream \<Rightarrow>
          (let filename = ''Profil_IPB_dan_UI.pptx'';
               hs = [(''Content-Disposition'', ''attachment; filename='' @ filename)]
           in Inr (StreamingResponse stream
                 ''application/vnd.openxmlformats-officedocument.presentationml.presentation'' hs))
      | Inl e \<Rightarrow>
          if is_Exception e then Inr (JSONResponse 500 [(''error'', JStr (str_of e))])
          else Inl e)"

text \<open>
  The routing table written with the \<open>@app.get\<close> decorators. A handler that returns a
  dictionary is answered with status 200 and the dictionary as JSON; a handler that
  returns a response object is answered with that response; an exception that leaves the
  handler is \<open>Raised\<close>. The handlers of \<open>main.py\<close> take no parameter, so nothing of the
  request but its method and path reaches them. \<open>NotRouted\<close>: no route of \<open>main.py\<close>
  matches.
\<close>

record request =
  req_method :: string
  req_path :: string
  query_params :: "(string \<times> string) list"
  req_headers :: "(string \<times> string) list"

datatype outcome = NotRouted | Raised exn | Responded response

definition returned_dict :: "exn + pydict \<Rightarrow> outcome" where
  "returned_dict r = (case r of Inl e \<Rightarrow> Raised e | Inr d \<Rightarrow> Responded (JSONResponse 200 d))"

definition returned_response :: "exn + response \<Rightarrow> outcome" where
  "returned_response r = (case r of Inl e \<Rightarrow> Raised e | Inr resp \<Rightarrow> Responded resp)"

definition app :: "world \<Rightarrow> request \<Rightarrow> outcome" where
  "app w req =
     (if req_method req \<noteq> ''GET'' then NotRouted
      else if req_path req = ''/'' then returned_dict (Inr read_root)
      else if req_path req = ''/api/hello'' then returned_dict (Inr hello)
      else if req_path req = ''/test''
        then returned_dict (test_database (os_environ w) (database_import w))
      else if req_path req = ''/api/ppt/ipb-ui'' then returned_response (generate_ppt_ipb_ui w)
      else NotRouted)"

section \<open>A concrete world\<close>

text \<open>
  The template the library loads for \<open>Presentation()\<close>: eleven slide layouts, listed with
  the \<open>idx\<close> of the placeholders a new slide inherits, no slide, and a slide of 10 by 7.5
  inches.
\<close>

definition default_template :: presentation where
  "default_template =
     \<lparr>slide_layouts =
        [\<lparr>layout_name = ''Title Slide'', layout_placeholders = [0, 1]\<rparr>,
         \<lparr>layout_name = ''Title and Content'', layout_placeholders = [0, 1]\<rparr>,
         \<lparr>layout_name = ''Section Header'', layout_placeholders = [0, 1]\<rparr>,
         \<lparr>layout_name = ''Two Content'', layout_placeholders = [0, 1, 2]\<rparr>,
         \<lparr>layout_name = ''Comparison'', layout_placeholders = [0, 1, 2, 3, 4]\<rparr>,
         \<lparr>layout_name = ''Title Only'', layout_placeholders = [0]\<rparr>,
         \<lparr>layout_name = ''Blank'', layout_placeholders = []\<rparr>,
         \<lparr>layout_name = ''Content with Caption'', layout_placeholders = [0, 1, 2]\<rparr>,
         \<lparr>layout_name = ''Picture with Caption'', layout_placeholders = [0, 1, 2]\<rparr>,
         \<lparr>layout_name = ''Title and Vertical Text'', layout_placeholders = [0, 1]\<rparr>,
         \<lparr>layout_name = ''Vertical Title and Text'', layout_placeholders = [0, 1]\<rparr>],
      slides = [],
      slide_width = 10,
      slide_height = 15 / 2\<rparr>"

text \<open>The month names of the C locale, which \<open>%B\<close> uses when no locale has been set.\<close>

definition month_name_C :: "nat \<Rightarrow> pystr" where
  "month_name_C m =
     ascii ([''January'', ''February'', ''March'', ''April'', ''May'', ''June'', ''July'',
             ''August'', ''September'', ''October'', ''November'', ''December''] ! (m - 1))"

text \<open>
  A world to run the program in: no database module, no environment variable, the default
  template, the 7th of May 2024, and a serializer that yields four bytes.
\<close>

definition example_world :: world where
  "example_world =
     \<lparr>os_environ = Map.empty,
      database_import = ImportRaises (Exn ModuleNotFoundError (ascii ''No module named database'')),
      Presentation = Inr default_template,
      datetime_now = \<lparr>year = 2024, month = 5, day = 7\<rparr>,
      full_month_name = month_name_C,
      save = (\<lambda>prs. Inr [80, 75, 3, 4])\<rparr>"

text \<open>
  What a reader of the document sees of a slide: the name of its layout, the lines of its
  title and its text boxes; and the number of slides of a presentation.
\<close>

definition textboxes :: "slide \<Rightarrow> shape list" where
  "textboxes s = filter is_textbox (shapes s)"

definition slide_title :: "slide \<Rightarrow> pystr list" where
  "slide_title s =
     (case placeholders_getitem s 0 of
        Inr tf \<Rightarrow> map paragraph_text (paragraphs tf)
      | Inl _ \<Rightarrow> [])"

definition slide_view :: "slide \<Rightarrow> string \<times> pystr list \<times> shape list" where
  "slide_view s = (layout_name (slide_layout s), slide_title s, textboxes s)"

definition slide_count :: "presentation \<Rightarrow> nat" where
  "slide_count prs = length (slides prs)"

text \<open>
  What \<open>p.text\<close> reads after \<open>p.text = t\<close> (lemma \<open>paragraph_text_set\<close> below): every
  line feed and vertical tab of \<open>t\<close> has become a vertical tab, every other control
  character but the horizontal tab has become its escape. A plain character is one that
  comes back unchanged: the horizontal tab and everything from U+0020 on.
\<close>

definition text_read_back :: "pystr \<Rightarrow> pystr" where
  "text_read_back t =
     concat (map (\<lambda>c. if c = 10 \<or> c = 11 then [11]
                       else if is_ctrl_char c then escape_char c else [c]) t)"

definition plain_char :: "nat \<Rightarrow> bool" where
  "plain_char c = (c = 9 \<or> 32 \<le> c)"

text \<open>A database handle that answers, used to run the diagnostics handler.\<close>

definition connected_db :: db_handle where
  "connected_db = \<lparr>db_name = Some (ascii ''appdb''), list_collection_names = Inr [ascii ''users'']\<rparr>"

section \<open>Facts about the library model\<close>

lemma and_then_simps [simp]:
  "and_then (Inr x) f = f x" "and_then (Inl e) f = Inl e"
  by (simp_all add: and_then_def)

lemma is_placeholder_set_text_frame [simp]:
  "is_placeholder i (set_text_frame tf sh) = is_placeholder i sh"
  by (cases sh) simp_all

lemma is_textbox_set_text_frame [simp]:
  "is_textbox (set_text_frame tf sh) = is_textbox sh"
  by (cases sh) simp_all

lemma text_frame_of_set_text_frame [simp]:
  "text_frame_of (set_text_frame tf sh) = tf"
  by (cases sh) simp_all

lemma find_update_first_same:
  "find (is_placeholder i) (update_first (is_placeholder i) (set_text_frame tf) xs)
     = map_option (set_text_frame tf) (find (is_placeholder i) xs)"
  by (induction xs) simp_all

lemma find_update_first_other:
  "i \<noteq> j \<Longrightarrow>
   find (is_placeholder j) (update_first (is_placeholder i) (set_text_frame tf) xs)
     = find (is_placeholder j) xs"
proof (induction xs)
  case Nil
  then show ?case by simp
next
  case (Cons x xs)
  then show ?case by (cases x) auto
qed

lemma filter_textbox_update_first:
  "filter is_textbox (update_first P (set_text_frame tf) xs) = []
     \<longleftrightarrow> filter is_textbox xs = []"
  by (induction xs) auto

lemma find_placeholder_add_slide:
  "i \<in> set (layout_placeholders lay) \<Longrightarrow>
   find (is_placeholder i) (shapes (add_slide lay)) = Some (Placeholder i placeholder_text_frame)"
proof -
  have "i \<in> set js \<Longrightarrow>
        find (is_placeholder i) (map (\<lambda>i. Placeholder i placeholder_text_frame) js)
          = Some (Placeholder i placeholder_text_frame)" for js
    by (induction js) auto
  then show "i \<in> set (layout_placeholders lay) \<Longrightarrow> ?thesis"
    by (simp add: add_slide_def)
qed

lemma textboxes_add_slide: "textboxes (add_slide lay) = []"
  by (simp add: textboxes_def add_slide_def filter_empty_conv)


lemma update_last_add_paragraph:
  "update_last_paragraph f (add_paragraph tf)
     = tf\<lparr>paragraphs := paragraphs tf @ [f empty_paragraph]\<rparr>"
  by (simp add: update_last_paragraph_def add_paragraph_def)

subsection \<open>Texts written to and read from a paragraph\<close>

lemma escape_ctrl_chars_simps [simp]:
  "escape_ctrl_chars [] = []"
  "escape_ctrl_chars (c # cs)
     = (if is_ctrl_char c then escape_char c else [c]) @ escape_ctrl_chars cs"
  by (simp_all add: escape_ctrl_chars_def)

lemma text_read_back_simps [simp]:
  "text_read_back [] = []"
  "text_read_back (c # cs)
     = (if c = 10 \<or> c = 11 then [11] else if is_ctrl_char c then escape_char c else [c])
       @ text_read_back cs"
  "text_read_back (s @ t) = text_read_back s @ text_read_back t"
  by (simp_all add: text_read_back_def)

lemma split_breaks_not_Nil [simp]: "split_breaks t \<noteq> []"
  by (induction t) (auto split: list.split)

lemma pieces_text_Suc:
  "concat (map inline_text (append_pieces (Suc i) ps cs))
     = concat (map inline_text cs) @ concat (map (\<lambda>s. 11 # escape_ctrl_chars s) ps)"
  by (induction ps arbitrary: i cs) (simp_all add: set_run_text_def Let_def)

lemma pieces_text_0:
  "concat (map inline_text (append_pieces 0 (s # ss) cs))
     = concat (map inline_text cs) @ escape_ctrl_chars s
       @ concat (map (\<lambda>s. 11 # escape_ctrl_chars s) ss)"
  by (simp add: pieces_text_Suc set_run_text_def Let_def)

lemma split_breaks_text:
  "split_breaks t = s # ss \<Longrightarrow>
   escape_ctrl_chars s @ concat (map (\<lambda>s. 11 # escape_ctrl_chars s) ss) = text_read_back t"
proof (induction t arbitrary: s ss)
  case Nil
  then show ?case by simp
next
  case (Cons c cs)
  obtain l ls where sb: "split_breaks cs = l # ls"
    by (cases "split_breaks cs") simp_all
  show ?case
  proof (cases "c = 10 \<or> c = 11")
    case True
    with Cons.prems sb have "s = []" "ss = l # ls" by simp_all
    with Cons.IH [OF sb] True show ?thesis by auto
  next
    case False
    with Cons.prems sb have "s = c # l" "ss = ls" by simp_all
    with Cons.IH [OF sb] False show ?thesis by simp
  qed
qed

lemma paragraph_text_append:
  "paragraph_text (append_text t p) = paragraph_text p @ text_read_back t"
proof -
  obtain s ss where sb: "split_breaks t = s # ss"
    by (cases "split_breaks t") simp_all
  from split_breaks_text [OF sb] show ?thesis
    by (simp add: paragraph_text_def append_text_def sb pieces_text_0 del: append_pieces.simps)
qed

lemma paragraph_text_set [simp]: "paragraph_text (set_paragraph_text t p) = text_read_back t"
  by (simp add: set_paragraph_text_def paragraph_text_append) (simp add: paragraph_text_def)

lemma paragraph_text_updates [simp]:
  "paragraph_text (p\<lparr>level := l\<rparr>) = paragraph_text p"
  "paragraph_text (p\<lparr>p_font := f\<rparr>) = paragraph_text p"
  "paragraph_text (p\<lparr>alignment := a\<rparr>) = paragraph_text p"
  by (simp_all add: paragraph_text_def)

lemma set_paragraph_text_keeps [simp]:
  "level (set_paragraph_text t p) = level p"
  "alignment (set_paragraph_text t p) = alignment p"
  "p_font (set_paragraph_text t p) = p_font p"
  by (simp_all add: set_paragraph_text_def append_text_def)

lemma plain_char_kept:
  "plain_char c \<Longrightarrow> \<not> is_ctrl_char c \<and> c \<noteq> 10 \<and> c \<noteq> 11"
  by (auto simp add: plain_char_def is_ctrl_char_def)

lemma text_read_back_plain: "list_all plain_char t \<Longrightarrow> text_read_back t = t"
  by (induction t) (simp_all add: plain_char_kept)

lemma escape_ctrl_chars_plain: "list_all plain_char t \<Longrightarrow> escape_ctrl_chars t = t"
  by (induction t) (simp_all add: plain_char_kept)

lemma split_lines_plain: "list_all plain_char t \<Longrightarrow> split_lines t = [t]"
  by (induction t) (simp_all add: plain_char_kept)

lemma split_breaks_plain: "list_all plain_char t \<Longrightarrow> split_breaks t = [t]"
  by (induction t) (simp_all add: plain_char_kept)

lemma set_paragraph_text_plain:
  "list_all plain_char t \<Longrightarrow> t \<noteq> [] \<Longrightarrow>
   set_paragraph_text t p = p\<lparr>p_content := [Run \<lparr>r_text = t, r_font = default_font\<rparr>]\<rparr>"
  by (simp add: set_paragraph_text_def append_text_def split_breaks_plain set_run_text_def
      escape_ctrl_chars_plain Let_def)

lemma plain_decimal: "list_all plain_char (decimal n)"
proof (induction n rule: decimal.induct)
  case (1 n)
  have d: "plain_char (digit k)" for k by (simp add: plain_char_def digit_def)
  show ?case
  proof (cases "n < 10")
    case True
    then show ?thesis by (subst decimal.simps) (simp add: d)
  next
    case False
    with 1 have "list_all plain_char (decimal (n div 10))" by simp
    with False show ?thesis by (subst decimal.simps) (simp add: d)
  qed
qed

lemma plain_two_digits: "list_all plain_char (two_digits n)"
  by (simp add: two_digits_def plain_decimal plain_char_def digit_def)

section \<open>The bulleted-slide builder\<close>

lemma write_bullets_Suc:
  "write_bullets (Suc i) bs tf
     = Inr (tf\<lparr>paragraphs := paragraphs tf @ map (\<lambda>b. write_bullet b empty_paragraph) bs\<rparr>)"
  by (induction bs arbitrary: i tf) (simp_all add: update_last_add_paragraph)

lemma write_bullets_0:
  "paragraphs tf = [p] \<Longrightarrow>
   write_bullets 0 bs tf
     = Inr (tf\<lparr>paragraphs := (case bs of [] \<Rightarrow> [p]
             | b # bs' \<Rightarrow> write_bullet b p # map (\<lambda>b. write_bullet b empty_paragraph) bs')\<rparr>)"
  by (cases bs) (simp_all add: update_first_paragraph_def write_bullets_Suc)








section \<open>The greeting routes\<close>

text \<open>
  Claim C9. Every GET request to the root route is answered with the JSON object
  \<open>{"message": "Hello from FastAPI Backend!"}\<close> and every GET request to the hello route
  with \<open>{"message": "Hello from the backend API!"}\<close>, whatever the query parameters and
  the headers of the request (and whatever the world the program runs in).
\<close>

theorem greeting_routes_fixed:
  "(req_method req = ''GET'' \<and> req_path req = ''/'' \<longrightarrow>
      app w req = Responded \<lparr>status_code = 200, media_type = ''application/json'', headers = [],
        content = JSONContent (JObj [(''message'', JStr (ascii ''Hello from FastAPI Backend!''))])\<rparr>)
   \<and> (req_method req = ''GET'' \<and> req_path req = ''/api/hello'' \<longrightarrow>
      app w req = Responded \<lparr>status_code = 200, media_type = ''application/json'', headers = [],
        content = JSONContent (JObj [(''message'', JStr (ascii ''Hello from the backend API!''))])\<rparr>)"
  by (simp add: app_def returned_dict_def JSONResponse_def read_root_def hello_def)

theorem greeting_routes_fixed_witness:
  "app example_world \<lparr>req_method = ''GET'', req_path = ''/'',
       query_params = [(''q'', ''1'')], req_headers = [(''Accept'', ''text/html'')]\<rparr>
     = Responded \<lparr>status_code = 200, media_type = ''application/json'', headers = [],
        content = JSONContent (JObj [(''message'', JStr (ascii ''Hello from FastAPI Backend!''))])\<rparr>
   \<and> app example_world \<lparr>req_method = ''GET'', req_path = ''/api/hello'',
       query_params = [], req_headers = []\<rparr>
     = Responded \<lparr>status_code = 200, media_type = ''application/json'', headers = [],
        content = JSONContent (JObj [(''message'', JStr (ascii ''Hello from the backend API!''))])\<rparr>"
  using greeting_routes_fixed [of "\<lparr>req_method = ''GET'', req_path = ''/'',
       query_params = [(''q'', ''1'')], req_headers = [(''Accept'', ''text/html'')]\<rparr>" example_world]
    greeting_routes_fixed [of "\<lparr>req_method = ''GET'', req_path = ''/api/hello'',
       query_params = [], req_headers = []\<rparr>" example_world]
  by simp

section \<open>The slides, as the builders leave them\<close>

lemma paragraphs_set_frame_text:
  "map paragraph_text (paragraphs (set_frame_text t tf)) = map text_read_back (split_lines t)"
  by (simp add: set_frame_text_def comp_def paragraph_text_append)
    (simp add: paragraph_text_def empty_paragraph_def)

lemma title_plain:
  "list_all plain_char t \<Longrightarrow> map text_read_back (split_lines t) = [t]"
  by (simp add: split_lines_plain text_read_back_plain)

lemma titled_slide_title:
  assumes "0 \<in> set (layout_placeholders lay)"
  shows "\<exists>s. set_title_text t (add_slide lay) = Inr s \<and> slide_layout s = lay
           \<and> textboxes s = [] \<and> slide_title s = map text_read_back (split_lines t)
           \<and> (\<forall>i. i \<noteq> 0 \<longrightarrow> find (is_placeholder i) (shapes s)
                               = find (is_placeholder i) (shapes (add_slide lay)))"
proof -
  let ?s = "set_placeholder_frame 0 (set_frame_text t placeholder_text_frame) (add_slide lay)"
  have 1: "set_title_text t (add_slide lay) = Inr ?s"
    using assms by (simp add: set_title_text_def find_placeholder_add_slide)
  have 2: "slide_layout ?s = lay" by (simp add: set_placeholder_frame_def add_slide_def)
  have 3: "textboxes ?s = []"
    using textboxes_add_slide [of lay]
    by (simp add: set_placeholder_frame_def textboxes_def filter_textbox_update_first)
  have 4: "slide_title ?s = map text_read_back (split_lines t)"
    using assms
    by (simp add: slide_title_def placeholders_getitem_def set_placeholder_frame_def
        find_update_first_same find_placeholder_add_slide paragraphs_set_frame_text)
  have 5: "\<forall>i. i \<noteq> 0 \<longrightarrow> find (is_placeholder i) (shapes ?s)
                               = find (is_placeholder i) (shapes (add_slide lay))"
    by (simp add: set_placeholder_frame_def find_update_first_other)
  from 1 2 3 4 5 show ?thesis by blast
qed

lemma slide_title_set_placeholder_frame:
  "i \<noteq> 0 \<Longrightarrow> slide_title (set_placeholder_frame i tf s) = slide_title s"
  by (simp add: slide_title_def placeholders_getitem_def set_placeholder_frame_def
      find_update_first_other)

lemma find_placeholder_append_textboxes:
  "list_all is_textbox bs \<Longrightarrow>
   find (is_placeholder i) (xs @ bs) = find (is_placeholder i) xs"
proof (induction xs)
  case Nil
  then show ?case
  proof (induction bs)
    case Nil
    then show ?case by simp
  next
    case (Cons b bs)
    then show ?case by (cases b) simp_all
  qed
next
  case (Cons x xs)
  then show ?case by simp
qed

lemma slide_title_append_textboxes:
  "list_all is_textbox bs \<Longrightarrow> slide_title (s\<lparr>shapes := shapes s @ bs\<rparr>) = slide_title s"
  by (simp add: slide_title_def placeholders_getitem_def find_placeholder_append_textboxes)

lemma add_title_slide_view:
  assumes "slide_layouts_getitem prs 0 = Inr lay"
    and "0 \<in> set (layout_placeholders lay)" and "1 \<in> set (layout_placeholders lay)"
  shows "\<exists>s. add_title_slide prs title subtitle = Inr (prs\<lparr>slides := slides prs @ [s]\<rparr>)
           \<and> slide_view s = (layout_name lay, map text_read_back (split_lines title), [])"
proof -
  from titled_slide_title [OF assms(2), of title] obtain s0 where
    s0: "set_title_text title (add_slide lay) = Inr s0" "slide_layout s0 = lay"
        "textboxes s0 = []" "slide_title s0 = map text_read_back (split_lines title)"
        "find (is_placeholder 1) (shapes s0) = find (is_placeholder 1) (shapes (add_slide lay))"
    by auto
  let ?s = "set_placeholder_frame 1 (set_frame_text subtitle placeholder_text_frame) s0"
  have "set_placeholder_text 1 subtitle s0 = Inr ?s"
    using s0(5) assms(3)
    by (simp add: set_placeholder_text_def placeholders_getitem_def find_placeholder_add_slide)
  then have "add_title_slide prs title subtitle = Inr (prs\<lparr>slides := slides prs @ [?s]\<rparr>)"
    using assms(1) s0(1) by (simp add: add_title_slide_def)
  moreover have "slide_view ?s = (layout_name lay, map text_read_back (split_lines title), [])"
    using s0(2,3,4)
    by (simp add: slide_view_def slide_title_set_placeholder_frame)
      (simp add: set_placeholder_frame_def textboxes_def filter_textbox_update_first)
  ultimately show ?thesis by blast
qed

lemma add_bullets_slide_view:
  assumes "slide_layouts_getitem prs 1 = Inr lay"
    and "0 \<in> set (layout_placeholders lay)" and "1 \<in> set (layout_placeholders lay)"
  shows "\<exists>s. add_bullets_slide prs title bullets = Inr (prs\<lparr>slides := slides prs @ [s]\<rparr>)
           \<and> slide_view s = (layout_name lay, map text_read_back (split_lines title), [])"
proof -
  from titled_slide_title [OF assms(2), of title] obtain s0 where
    s0: "set_title_text title (add_slide lay) = Inr s0" "slide_layout s0 = lay"
        "textboxes s0 = []" "slide_title s0 = map text_read_back (split_lines title)"
        "find (is_placeholder 1) (shapes s0) = find (is_placeholder 1) (shapes (add_slide lay))"
    by auto
  have get: "placeholders_getitem s0 1 = Inr placeholder_text_frame"
    using s0(5) assms(3) by (simp add: placeholders_getitem_def find_placeholder_add_slide)
  have clr: "clear placeholder_text_frame = Inr placeholder_text_frame"
    by (simp add: clear_def placeholder_text_frame_def empty_paragraph_def)
  obtain tf where wr: "write_bullets 0 bullets placeholder_text_frame = Inr tf"
    using write_bullets_0 [of placeholder_text_frame empty_paragraph bullets]
    by (simp add: placeholder_text_frame_def)
  let ?s = "set_placeholder_frame 1 tf s0"
  have "add_bullets_slide prs title bullets = Inr (prs\<lparr>slides := slides prs @ [?s]\<rparr>)"
    using assms(1) s0(1) get clr wr by (simp add: add_bullets_slide_def)
  moreover have "slide_view ?s = (layout_name lay, map text_read_back (split_lines title), [])"
    using s0(2,3,4)
    by (simp add: slide_view_def slide_title_set_placeholder_frame)
      (simp add: set_placeholder_frame_def textboxes_def filter_textbox_update_first)
  ultimately show ?thesis by blast
qed

lemma add_items_paragraphs:
  "add_items items tf
     = tf\<lparr>paragraphs := paragraphs tf @ map (\<lambda>it. write_item it empty_paragraph) items\<rparr>"
  by (induction items arbitrary: tf) (simp_all add: update_last_add_paragraph)

lemma fill_column_textbox:
  "fill_column title_text items (add_textbox x y cx cy)
     = Inr (TextBox x y cx cy
             \<lparr>paragraphs = write_heading title_text empty_paragraph
                            # map (\<lambda>it. write_item it empty_paragraph) items,
              word_wrap = Some True\<rparr>)"
  by (simp add: fill_column_def add_textbox_def textbox_text_frame_def update_first_paragraph_def
      add_items_paragraphs Let_def)

lemma add_two_column_slide_view:
  assumes "slide_layouts_getitem prs 5 = Inr lay" and "0 \<in> set (layout_placeholders lay)"
  shows "\<exists>s. add_two_column_slide prs title left_title left_items right_title right_items
               = Inr (prs\<lparr>slides := slides prs @ [s]\<rparr>)
           \<and> slide_view s = (layout_name lay, map text_read_back (split_lines title),
               [TextBox (7 / 10) (16 / 10) (43 / 10) 5
                  \<lparr>paragraphs = write_heading left_title empty_paragraph
                                 # map (\<lambda>it. write_item it empty_paragraph) left_items,
                   word_wrap = Some True\<rparr>,
                TextBox (52 / 10) (16 / 10) (43 / 10) 5
                  \<lparr>paragraphs = write_heading right_title empty_paragraph
                                 # map (\<lambda>it. write_item it empty_paragraph) right_items,
                   word_wrap = Some True\<rparr>])"
proof -
  from titled_slide_title [OF assms(2), of title] obtain s0 where
    s0: "set_title_text title (add_slide lay) = Inr s0" "slide_layout s0 = lay"
        "textboxes s0 = []" "slide_title s0 = map text_read_back (split_lines title)"
    by auto
  let ?bl = "TextBox (7 / 10) (16 / 10) (43 / 10) 5
                  \<lparr>paragraphs = write_heading left_title empty_paragraph
                                 # map (\<lambda>it. write_item it empty_paragraph) left_items,
                   word_wrap = Some True\<rparr>"
  let ?br = "TextBox (52 / 10) (16 / 10) (43 / 10) 5
                  \<lparr>paragraphs = write_heading right_title empty_paragraph
                                 # map (\<lambda>it. write_item it empty_paragraph) right_items,
                   word_wrap = Some True\<rparr>"
  let ?s = "s0\<lparr>shapes := shapes s0 @ [?bl, ?br]\<rparr>"
  have "add_two_column_slide prs title left_title left_items right_title right_items
          = Inr (prs\<lparr>slides := slides prs @ [?s]\<rparr>)"
    using assms(1) s0(1) by (simp add: add_two_column_slide_def fill_column_textbox)
  moreover have "slide_view ?s = (layout_name lay, map text_read_back (split_lines title), [?bl, ?br])"
    using s0(2,3,4) slide_title_append_textboxes [of "[?bl, ?br]" s0]
    by (simp add: slide_view_def textboxes_def)
  ultimately show ?thesis by blast
qed

lemma add_closing_slide_view:
  assumes "slide_layouts_getitem prs 5 = Inr lay" and "0 \<in> set (layout_placeholders lay)"
  shows "\<exists>s. add_closing_slide prs stamp = Inr (prs\<lparr>slides := slides prs @ [s]\<rparr>)
           \<and> slide_view s = (layout_name lay, map text_read_back (split_lines (ascii ''Terima kasih'')),
               [TextBox (12 / 10) (22 / 10) 8 3
                  \<lparr>paragraphs = [write_closing stamp empty_paragraph],
                   word_wrap = Some False\<rparr>])"
proof -
  from titled_slide_title [OF assms(2), of "ascii ''Terima kasih''"] obtain s0 where
    s0: "set_title_text (ascii ''Terima kasih'') (add_slide lay) = Inr s0" "slide_layout s0 = lay"
        "textboxes s0 = []" "slide_title s0 = map text_read_back (split_lines (ascii ''Terima kasih''))"
    by auto
  let ?b = "TextBox (12 / 10) (22 / 10) 8 3
                  \<lparr>paragraphs = [write_closing stamp empty_paragraph],
                   word_wrap = Some False\<rparr>"
  let ?s = "s0\<lparr>shapes := shapes s0 @ [?b]\<rparr>"
  have "add_closing_slide prs stamp = Inr (prs\<lparr>slides := slides prs @ [?s]\<rparr>)"
    using assms(1) s0(1)
    by (simp add: add_closing_slide_def add_textbox_def textbox_text_frame_def
        update_first_paragraph_def)
  moreover have "slide_view ?s = (layout_name lay, map text_read_back (split_lines (ascii ''Terima kasih'')), [?b])"
    using s0(2,3,4) slide_title_append_textboxes [of "[?b]" s0]
    by (simp add: slide_view_def textboxes_def)
  ultimately show ?thesis by blast
qed

section \<open>The assembled document on the default template\<close>

lemma slides_default_template: "slides default_template = []"
  by (simp add: default_template_def)

lemma default_layouts:
  shows "slide_layouts_getitem (default_template\<lparr>slides := xs\<rparr>) 0
           = Inr \<lparr>layout_name = ''Title Slide'', layout_placeholders = [0, 1]\<rparr>"
    and "slide_layouts_getitem (default_template\<lparr>slides := xs\<rparr>) 1
           = Inr \<lparr>layout_name = ''Title and Content'', layout_placeholders = [0, 1]\<rparr>"
    and "slide_layouts_getitem (default_template\<lparr>slides := xs\<rparr>) 5
           = Inr \<lparr>layout_name = ''Title Only'', layout_placeholders = [0]\<rparr>"
  by (simp_all add: slide_layouts_getitem_def default_template_def)

lemma default_template_no_slides: "default_template\<lparr>slides := []\<rparr> = default_template"
  by (simp add: default_template_def)

lemma step_title:
  assumes "list_all plain_char title"
  shows "\<exists>s. add_title_slide (default_template\<lparr>slides := xs\<rparr>) title subtitle
               = Inr (default_template\<lparr>slides := xs @ [s]\<rparr>)
           \<and> slide_view s = (''Title Slide'', [title], [])"
  using add_title_slide_view [OF default_layouts(1) [of xs], of title subtitle] title_plain [OF assms]
  by simp

lemma step_bullets:
  assumes "list_all plain_char title"
  shows "\<exists>s. add_bullets_slide (default_template\<lparr>slides := xs\<rparr>) title bullets
               = Inr (default_template\<lparr>slides := xs @ [s]\<rparr>)
           \<and> slide_view s = (''Title and Content'', [title], [])"
  using add_bullets_slide_view [OF default_layouts(2) [of xs], of title bullets] title_plain [OF assms]
  by simp

lemma step_two_column:
  assumes "list_all plain_char title"
  shows "\<exists>s. add_two_column_slide (default_template\<lparr>slides := xs\<rparr>) title lt li rt ri
               = Inr (default_template\<lparr>slides := xs @ [s]\<rparr>)
           \<and> slide_view s = (''Title Only'', [title],
               [TextBox (7 / 10) (16 / 10) (43 / 10) 5
                  \<lparr>paragraphs = write_heading lt empty_paragraph
                                 # map (\<lambda>it. write_item it empty_paragraph) li,
                   word_wrap = Some True\<rparr>,
                TextBox (52 / 10) (16 / 10) (43 / 10) 5
                  \<lparr>paragraphs = write_heading rt empty_paragraph
                                 # map (\<lambda>it. write_item it empty_paragraph) ri,
                   word_wrap = Some True\<rparr>])"
  using add_two_column_slide_view [OF default_layouts(3) [of xs], of title lt li rt ri] title_plain [OF assms]
  by simp

lemma step_closing:
  "\<exists>s. add_closing_slide (default_template\<lparr>slides := xs\<rparr>) stamp
               = Inr (default_template\<lparr>slides := xs @ [s]\<rparr>)
           \<and> slide_view s = (''Title Only'', [ascii ''Terima kasih''],
               [TextBox (12 / 10) (22 / 10) 8 3
                  \<lparr>paragraphs = [write_closing stamp empty_paragraph],
                   word_wrap = Some False\<rparr>])"
proof -
  have "list_all plain_char (ascii ''Terima kasih'')" by (simp add: ascii_def plain_char_def)
  from add_closing_slide_view [OF default_layouts(3) [of xs], of stamp] title_plain [OF this]
  show ?thesis by simp
qed

lemma titles_one_line:
  "list_all plain_char (ascii ''Profil IPB University & Universitas Indonesia'')"
  "list_all plain_char (ascii ''IPB University '' @ [EN_DASH] @ ascii '' Ringkasan'')"
  "list_all plain_char (ascii ''IPB '' @ [EN_DASH] @ ascii '' Jalur Masuk'')"
  "list_all plain_char (ascii ''IPB '' @ [EN_DASH] @ ascii '' Fakultas & Sekolah'')"
  "list_all plain_char (ascii ''Universitas Indonesia '' @ [EN_DASH] @ ascii '' Ringkasan'')"
  "list_all plain_char (ascii ''UI '' @ [EN_DASH] @ ascii '' Jalur Masuk'')"
  "list_all plain_char (ascii ''UI '' @ [EN_DASH] @ ascii '' Fakultas (Kesehatan & Saintek)'')"
  "list_all plain_char (ascii ''UI '' @ [EN_DASH] @ ascii '' Fakultas (Soshum & Program Lain)'')"
  by (simp_all add: ascii_def EN_DASH_def plain_char_def)

lemma document_views:
  assumes "Presentation w = Inr default_template"
  shows "\<exists>ss. build_ipb_ui_document w = Inr (default_template\<lparr>slides := ss\<rparr>)
      \<and> map slide_view ss =
         [(''Title Slide'', [ascii ''Profil IPB University & Universitas Indonesia''], []),
          (''Title and Content'', [ascii ''IPB University '' @ [EN_DASH] @ ascii '' Ringkasan''], []),
          (''Title and Content'', [ascii ''IPB '' @ [EN_DASH] @ ascii '' Jalur Masuk''], []),
          (''Title and Content'', [ascii ''IPB '' @ [EN_DASH] @ ascii '' Fakultas & Sekolah''], []),
          (''Title and Content'',
             [ascii ''Universitas Indonesia '' @ [EN_DASH] @ ascii '' Ringkasan''], []),
          (''Title and Content'', [ascii ''UI '' @ [EN_DASH] @ ascii '' Jalur Masuk''], []),
          (''Title Only'', [ascii ''UI '' @ [EN_DASH] @ ascii '' Fakultas (Kesehatan & Saintek)''],
             [TextBox (7 / 10) (16 / 10) (43 / 10) 5
                \<lparr>paragraphs = write_heading (ascii ''Rumpun Kesehatan'') empty_paragraph
                               # map (\<lambda>it. write_item it empty_paragraph) kesehatan,
                 word_wrap = Some True\<rparr>,
              TextBox (52 / 10) (16 / 10) (43 / 10) 5
                \<lparr>paragraphs = write_heading (ascii ''Rumpun Saintek'') empty_paragraph
                               # map (\<lambda>it. write_item it empty_paragraph) saintek,
                 word_wrap = Some True\<rparr>]),
          (''Title Only'', [ascii ''UI '' @ [EN_DASH] @ ascii '' Fakultas (Soshum & Program Lain)''],
             [TextBox (7 / 10) (16 / 10) (43 / 10) 5
                \<lparr>paragraphs = write_heading (ascii ''Rumpun Soshum'') empty_paragraph
                               # map (\<lambda>it. write_item it empty_paragraph) soshum,
                 word_wrap = Some True\<rparr>,
              TextBox (52 / 10) (16 / 10) (43 / 10) 5
                \<lparr>paragraphs = write_heading (ascii ''Program/Sekolah Lain'') empty_paragraph
                               # map (\<lambda>it. write_item it empty_paragraph) lainnya,
                 word_wrap = Some True\<rparr>]),
          (''Title Only'', [ascii ''Terima kasih''],
             [TextBox (12 / 10) (22 / 10) 8 3
                \<lparr>paragraphs = [write_closing
                                 (strftime_d_B_Y (full_month_name w) (datetime_now w))
                                 empty_paragraph],
                 word_wrap = Some False\<rparr>])]"
proof -
  from step_title [OF titles_one_line(1), where xs = "[]"
      and subtitle = "ascii ''Ringkasan jalur masuk dan fakultas (disusun otomatis)''"] obtain s1 where
    a1: "add_title_slide default_template (ascii ''Profil IPB University & Universitas Indonesia'')
           (ascii ''Ringkasan jalur masuk dan fakultas (disusun otomatis)'')
         = Inr (default_template\<lparr>slides := [s1]\<rparr>)"
    and v1: "slide_view s1 = (''Title Slide'', [ascii ''Profil IPB University & Universitas Indonesia''], [])"
    by (auto simp add: default_template_no_slides)
  from step_bullets [OF titles_one_line(2), where xs = "[s1]" and bullets = ipb_ringkasan] obtain s2 where
    a2: "add_bullets_slide (default_template\<lparr>slides := [s1]\<rparr>) (ascii ''IPB University '' @ [EN_DASH] @ ascii '' Ringkasan'') ipb_ringkasan
         = Inr (default_template\<lparr>slides := [s1, s2]\<rparr>)"
    and v2: "slide_view s2 = (''Title and Content'', [ascii ''IPB University '' @ [EN_DASH] @ ascii '' Ringkasan''], [])"
    by auto
  from step_bullets [OF titles_one_line(3), where xs = "[s1, s2]" and bullets = ipb_jalur_masuk] obtain s3 where
    a3: "add_bullets_slide (default_template\<lparr>slides := [s1, s2]\<rparr>) (ascii ''IPB '' @ [EN_DASH] @ ascii '' Jalur Masuk'') ipb_jalur_masuk
         = Inr (default_template\<lparr>slides := [s1, s2, s3]\<rparr>)"
    and v3: "slide_view s3 = (''Title and Content'', [ascii ''IPB '' @ [EN_DASH] @ ascii '' Jalur Masuk''], [])"
    by auto
  from step_bullets [OF titles_one_line(4), where xs = "[s1, s2, s3]" and bullets = ipb_fakultas] obtain s4 where
    a4: "add_bullets_slide (default_template\<lparr>slides := [s1, s2, s3]\<rparr>) (ascii ''IPB '' @ [EN_DASH] @ ascii '' Fakultas & Sekolah'') ipb_fakultas
         = Inr (default_template\<lparr>slides := [s1, s2, s3, s4]\<rparr>)"
    and v4: "slide_view s4 = (''Title and Content'', [ascii ''IPB '' @ [EN_DASH] @ ascii '' Fakultas & Sekolah''], [])"
    by auto
  from step_bullets [OF titles_one_line(5), where xs = "[s1, s2, s3, s4]" and bullets = ui_ringkasan] obtain s5 where
    a5: "add_bullets_slide (default_template\<lparr>slides := [s1, s2, s3, s4]\<rparr>) (ascii ''Universitas Indonesia '' @ [EN_DASH] @ ascii '' Ringkasan'') ui_ringkasan
         = Inr (default_template\<lparr>slides := [s1, s2, s3, s4, s5]\<rparr>)"
    and v5: "slide_view s5 = (''Title and Content'', [ascii ''Universitas Indonesia '' @ [EN_DASH] @ ascii '' Ringkasan''], [])"
    by auto
  from step_bullets [OF titles_one_line(6), where xs = "[s1, s2, s3, s4, s5]" and bullets = ui_jalur_masuk] obtain s6 where
    a6: "add_bullets_slide (default_template\<lparr>slides := [s1, s2, s3, s4, s5]\<rparr>) (ascii ''UI '' @ [EN_DASH] @ ascii '' Jalur Masuk'') ui_jalur_masuk
         = Inr (default_template\<lparr>slides := [s1, s2, s3, s4, s5, s6]\<rparr>)"
    and v6: "slide_view s6 = (''Title and Content'', [ascii ''UI '' @ [EN_DASH] @ ascii '' Jalur Masuk''], [])"
    by auto
  from step_two_column [OF titles_one_line(7), where xs = "[s1, s2, s3, s4, s5, s6]" and lt = "ascii ''Rumpun Kesehatan''"
      and li = kesehatan and rt = "ascii ''Rumpun Saintek''" and ri = saintek] obtain s7 where
    a7: "add_two_column_slide (default_template\<lparr>slides := [s1, s2, s3, s4, s5, s6]\<rparr>) (ascii ''UI '' @ [EN_DASH] @ ascii '' Fakultas (Kesehatan & Saintek)'')
           (ascii ''Rumpun Kesehatan'') kesehatan (ascii ''Rumpun Saintek'') saintek
         = Inr (default_template\<lparr>slides := [s1, s2, s3, s4, s5, s6, s7]\<rparr>)"
    and v7: "slide_view s7 = (''Title Only'', [ascii ''UI '' @ [EN_DASH] @ ascii '' Fakultas (Kesehatan & Saintek)''],
               [TextBox (7 / 10) (16 / 10) (43 / 10) 5
                  \<lparr>paragraphs = write_heading (ascii ''Rumpun Kesehatan'') empty_paragraph
                                 # map (\<lambda>it. write_item it empty_paragraph) kesehatan,
                   word_wrap = Some True\<rparr>,
                TextBox (52 / 10) (16 / 10) (43 / 10) 5
                  \<lparr>paragraphs = write_heading (ascii ''Rumpun Saintek'') empty_paragraph
                                 # map (\<lambda>it. write_item it empty_paragraph) saintek,
                   word_wrap = Some True\<rparr>])"
    by auto
  from step_two_column [OF titles_one_line(8), where xs = "[s1, s2, s3, s4, s5, s6, s7]" and lt = "ascii ''Rumpun Soshum''"
      and li = soshum and rt = "ascii ''Program/Sekolah Lain''" and ri = lainnya] obtain s8 where
    a8: "add_two_column_slide (default_template\<lparr>slides := [s1, s2, s3, s4, s5, s6, s7]\<rparr>) (ascii ''UI '' @ [EN_DASH] @ ascii '' Fakultas (Soshum & Program Lain)'')
           (ascii ''Rumpun Soshum'') soshum (ascii ''Program/Sekolah Lain'') lainnya
         = Inr (default_template\<lparr>slides := [s1, s2, s3, s4, s5, s6, s7, s8]\<rparr>)"
    and v8: "slide_view s8 = (''Title Only'', [ascii ''UI '' @ [EN_DASH] @ ascii '' Fakultas (Soshum & Program Lain)''],
               [TextBox (7 / 10) (16 / 10) (43 / 10) 5
                  \<lparr>paragraphs = write_heading (ascii ''Rumpun Soshum'') empty_paragraph
                                 # map (\<lambda>it. write_item it empty_paragraph) soshum,
                   word_wrap = Some True\<rparr>,
                TextBox (52 / 10) (16 / 10) (43 / 10) 5
                  \<lparr>paragraphs = write_heading (ascii ''Program/Sekolah Lain'') empty_paragraph
                                 # map (\<lambda>it. write_item it empty_paragraph) lainnya,
                   word_wrap = Some True\<rparr>])"
    by auto
  let ?stamp = "strftime_d_B_Y (full_month_name w) (datetime_now w)"
  from step_closing [of "[s1, s2, s3, s4, s5, s6, s7, s8]" ?stamp] obtain s9 where
    a9: "add_closing_slide (default_template\<lparr>slides := [s1, s2, s3, s4, s5, s6, s7, s8]\<rparr>) ?stamp
         = Inr (default_template\<lparr>slides := [s1, s2, s3, s4, s5, s6, s7, s8, s9]\<rparr>)"
    and v9: "slide_view s9 = (''Title Only'', [ascii ''Terima kasih''],
             [TextBox (12 / 10) (22 / 10) 8 3
                \<lparr>paragraphs = [write_closing ?stamp empty_paragraph],
                 word_wrap = Some False\<rparr>])"
    by auto
  have b: "build_ipb_ui_document w = Inr (default_template\<lparr>slides := [s1, s2, s3, s4, s5, s6, s7, s8, s9]\<rparr>)"
    unfolding build_ipb_ui_document_def
    by (simp only: assms and_then_simps a1 a2 a3 a4 a5 a6 a7 a8 a9)
  show ?thesis
    by (rule exI [of _ "[s1, s2, s3, s4, s5, s6, s7, s8, s9]"]) (simp add: b v1 v2 v3 v4 v5 v6 v7 v8 v9)
qed

section \<open>The diagnostics handler\<close>

lemma test_database_env_fields:
  assumes "test_database env imp = Inr r"
  shows "map_of r ''database_url''
           = Some (JStr (if getenv_truthy env ''DATABASE_URL''
                         then CHECK_MARK # ascii '' Set'' else CROSS_MARK # ascii '' Not Set''))"
    and "map_of r ''database_name''
           = Some (JStr (if getenv_truthy env ''DATABASE_NAME''
                         then CHECK_MARK # ascii '' Set'' else CROSS_MARK # ascii '' Not Set''))"
  using assms
  by (auto simp add: test_database_def Let_def update_conv' split: sum.splits)

lemma set_not_set_distinct: "CHECK_MARK # ascii '' Set'' \<noteq> CROSS_MARK # ascii '' Not Set''"
  by (simp add: CHECK_MARK_def CROSS_MARK_def)

lemma getenv_truthy_iff: "getenv_truthy env k \<longleftrightarrow> (\<exists>v. env k = Some v \<and> v \<noteq> [])"
  by (simp add: getenv_truthy_def split: option.split)

text \<open>
  Claim C3. Whenever the diagnostics handler returns its report, the field
  \<open>database_url\<close> is "check mark, Set" if and only if the environment variable
  \<open>DATABASE_URL\<close> is present and non-empty, and "cross mark, Not Set" if and only if it
  is not; likewise \<open>database_name\<close> with \<open>DATABASE_NAME\<close>. This holds for every
  environment and every outcome of the database import, so also after the handler has
  written "Configured" and the database's name into these fields.
\<close>

theorem env_fields_reflect_environment:
  assumes "test_database env imp = Inr r"
  shows "(map_of r ''database_url'' = Some (JStr (CHECK_MARK # ascii '' Set''))
            \<longleftrightarrow> (\<exists>v. env ''DATABASE_URL'' = Some v \<and> v \<noteq> []))
       \<and> (map_of r ''database_url'' = Some (JStr (CROSS_MARK # ascii '' Not Set''))
            \<longleftrightarrow> \<not> (\<exists>v. env ''DATABASE_URL'' = Some v \<and> v \<noteq> []))
       \<and> (map_of r ''database_name'' = Some (JStr (CHECK_MARK # ascii '' Set''))
            \<longleftrightarrow> (\<exists>v. env ''DATABASE_NAME'' = Some v \<and> v \<noteq> []))
       \<and> (map_of r ''database_name'' = Some (JStr (CROSS_MARK # ascii '' Not Set''))
            \<longleftrightarrow> \<not> (\<exists>v. env ''DATABASE_NAME'' = Some v \<and> v \<noteq> []))"
  using test_database_env_fields [OF assms] set_not_set_distinct
  by (auto simp add: getenv_truthy_iff [symmetric])

lemma connected_returns:
  "\<exists>r. test_database [''DATABASE_URL'' \<mapsto> ascii ''mongodb://db'', ''DATABASE_NAME'' \<mapsto> []]
         (Imported (Some connected_db)) = Inr r"
  by (simp add: test_database_def probe_handle_def connected_db_def Let_def)

theorem env_fields_reflect_environment_witness:
  "\<exists>r. test_database [''DATABASE_URL'' \<mapsto> ascii ''mongodb://db'', ''DATABASE_NAME'' \<mapsto> []]
         (Imported (Some connected_db)) = Inr r
     \<and> map_of r ''database_url'' = Some (JStr (CHECK_MARK # ascii '' Set''))
     \<and> map_of r ''database_name'' = Some (JStr (CROSS_MARK # ascii '' Not Set''))"
proof -
  from connected_returns obtain r where
    r: "test_database [''DATABASE_URL'' \<mapsto> ascii ''mongodb://db'', ''DATABASE_NAME'' \<mapsto> []]
         (Imported (Some connected_db)) = Inr r" ..
  from env_fields_reflect_environment [OF r] have
    "map_of r ''database_url'' = Some (JStr (CHECK_MARK # ascii '' Set''))"
    "map_of r ''database_name'' = Some (JStr (CROSS_MARK # ascii '' Not Set''))"
    by (simp_all add: ascii_def)
  with r show ?thesis by blast
qed

lemma is_ImportError_is_Exception: "is_ImportError e \<Longrightarrow> is_Exception e"
  by (cases e rule: is_ImportError.cases) simp_all

text \<open>
  Claim C2. Whatever the environment, and whether the database module is missing, the
  import fails otherwise, the handle is \<open>None\<close>, or listing the collection names raises,
  as long as what is raised is an instance of \<open>Exception\<close> (the class the handler
  catches), a GET request to \<open>/test\<close> is answered with status 200 and a report whose
  \<open>database\<close> field is the status string of that case: no exception leaves the handler.
\<close>

theorem diagnostics_never_fails:
  assumes "\<And>e. database_import w = ImportRaises e \<Longrightarrow> is_Exception e"
    and "\<And>db e. database_import w = Imported (Some db) \<Longrightarrow> list_collection_names db = Inl e
           \<Longrightarrow> is_Exception e"
    and "req_method req = ''GET''" and "req_path req = ''/test''"
  shows "\<exists>d s. app w req = Responded \<lparr>status_code = 200, media_type = ''application/json'',
                                      headers = [], content = JSONContent (JObj d)\<rparr>
           \<and> map_of d ''database'' = Some (JStr s)
           \<and> s = (case database_import w of
                    ImportRaises e \<Rightarrow>
                      if is_ImportError e
                      then CROSS_MARK # ascii '' Database module not found (run enable-database first)''
                      else CROSS_MARK # ascii '' Error: '' @ take 50 (str_of e)
                  | Imported None \<Rightarrow>
                      [WARNING_SIGN, VARIATION_SELECTOR_16] @ ascii ''  Available but not initialized''
                  | Imported (Some db) \<Rightarrow>
                      (case list_collection_names db of
                         Inl e \<Rightarrow> [WARNING_SIGN, VARIATION_SELECTOR_16]
                                    @ ascii ''  Connected but Error: '' @ take 50 (str_of e)
                       | Inr cs \<Rightarrow> CHECK_MARK # ascii '' Connected & Working''))"
proof (cases "database_import w")
  case (ImportRaises e)
  with assms(1) have "is_Exception e" by simp
  with ImportRaises assms(3,4) show ?thesis
    by (simp add: app_def returned_dict_def JSONResponse_def test_database_def Let_def update_conv')
next
  case (Imported h)
  show ?thesis
  proof (cases h)
    case None
    with Imported assms(3,4) show ?thesis
      by (simp add: app_def returned_dict_def JSONResponse_def test_database_def Let_def
          update_conv')
  next
    case (Some db)
    show ?thesis
    proof (cases "list_collection_names db")
      case (Inl e)
      with assms(2) Imported Some have "is_Exception e" by simp
      with Inl Imported Some assms(3,4) show ?thesis
        by (simp add: app_def returned_dict_def JSONResponse_def test_database_def
            probe_handle_def Let_def update_conv')
    next
      case (Inr cs)
      with Imported Some assms(3,4) show ?thesis
        by (simp add: app_def returned_dict_def JSONResponse_def test_database_def
            probe_handle_def Let_def update_conv')
    qed
  qed
qed

theorem diagnostics_never_fails_witness:
  "(\<exists>d. app example_world
          \<lparr>req_method = ''GET'', req_path = ''/test'', query_params = [], req_headers = []\<rparr>
        = Responded \<lparr>status_code = 200, media_type = ''application/json'', headers = [],
                     content = JSONContent (JObj d)\<rparr>
      \<and> map_of d ''database''
          = Some (JStr (CROSS_MARK
                        # ascii '' Database module not found (run enable-database first)'')))
   \<and> (\<exists>d. app (example_world\<lparr>database_import :=
                 Imported (Some \<lparr>db_name = None,
                   list_collection_names = Inl (Exn OtherException (ascii ''timed out''))\<rparr>)\<rparr>)
          \<lparr>req_method = ''GET'', req_path = ''/test'', query_params = [], req_headers = []\<rparr>
        = Responded \<lparr>status_code = 200, media_type = ''application/json'', headers = [],
                     content = JSONContent (JObj d)\<rparr>
      \<and> map_of d ''database''
          = Some (JStr ([WARNING_SIGN, VARIATION_SELECTOR_16]
                        @ ascii ''  Connected but Error: '' @ ascii ''timed out'')))"
proof -
  have a: "\<exists>d. app example_world
          \<lparr>req_method = ''GET'', req_path = ''/test'', query_params = [], req_headers = []\<rparr>
        = Responded \<lparr>status_code = 200, media_type = ''application/json'', headers = [],
                     content = JSONContent (JObj d)\<rparr>
      \<and> map_of d ''database''
          = Some (JStr (CROSS_MARK
                        # ascii '' Database module not found (run enable-database first)''))"
    using diagnostics_never_fails [of example_world
      "\<lparr>req_method = ''GET'', req_path = ''/test'', query_params = [], req_headers = []\<rparr>"]
    by (simp add: example_world_def)
  have b: "\<exists>d. app (example_world\<lparr>database_import :=
                 Imported (Some \<lparr>db_name = None,
                   list_collection_names = Inl (Exn OtherException (ascii ''timed out''))\<rparr>)\<rparr>)
          \<lparr>req_method = ''GET'', req_path = ''/test'', query_params = [], req_headers = []\<rparr>
        = Responded \<lparr>status_code = 200, media_type = ''application/json'', headers = [],
                     content = JSONContent (JObj d)\<rparr>
      \<and> map_of d ''database''
          = Some (JStr ([WARNING_SIGN, VARIATION_SELECTOR_16]
                        @ ascii ''  Connected but Error: '' @ ascii ''timed out''))"
  proof -
    let ?w = "example_world\<lparr>database_import :=
                 Imported (Some \<lparr>db_name = None,
                   list_collection_names = Inl (Exn OtherException (ascii ''timed out''))\<rparr>)\<rparr>"
    have h1: "\<And>e. database_import ?w = ImportRaises e \<Longrightarrow> is_Exception e"
      by simp
    have h2: "\<And>db e. database_import ?w = Imported (Some db)
                \<Longrightarrow> list_collection_names db = Inl e \<Longrightarrow> is_Exception e"
      by auto
    from diagnostics_never_fails [of ?w
      "\<lparr>req_method = ''GET'', req_path = ''/test'', query_params = [], req_headers = []\<rparr>",
      OF h1 h2]
    show ?thesis by (simp add: ascii_def)
  qed
  from a b show ?thesis by (rule conjI)
qed

section \<open>The document route\<close>

lemma build_fails_without_template:
  "build_ipb_ui_presentation (w\<lparr>Presentation := Inl e\<rparr>) = Inl e"
  by (simp add: build_ipb_ui_presentation_def build_ipb_ui_document_def)

lemma build_example_world:
  "build_ipb_ui_presentation example_world = Inr \<lparr>getvalue = [80, 75, 3, 4], tell = 0\<rparr>"
proof -
  have "Presentation example_world = Inr default_template" by (simp add: example_world_def)
  from document_views [OF this] obtain ss where
    "build_ipb_ui_document example_world = Inr (default_template\<lparr>slides := ss\<rparr>)"
    by (elim exE conjE)
  then show ?thesis
    by (simp add: build_ipb_ui_presentation_def prs_save_def BytesIO_def seek_def example_world_def)
qed

text \<open>
  Claim C5. When \<open>build_ipb_ui_presentation\<close> raises an exception (an instance of
  \<open>Exception\<close>, the class the route catches), \<open>generate_ppt_ipb_ui\<close> returns a response
  with status 500 whose JSON body maps the key \<open>error\<close> to the string of the exception.
  When it returns a stream, the route returns that stream with status 200, the
  presentation media type and the header
  \<open>Content-Disposition: attachment; filename=Profil_IPB_dan_UI.pptx\<close>.
\<close>

theorem document_route_responses:
  "(build_ipb_ui_presentation w = Inl e \<and> is_Exception e \<longrightarrow>
      generate_ppt_ipb_ui w
        = Inr \<lparr>status_code = 500, media_type = ''application/json'', headers = [],
               content = JSONContent (JObj [(''error'', JStr (str_of e))])\<rparr>)
   \<and> (build_ipb_ui_presentation w = Inr stream \<longrightarrow>
      generate_ppt_ipb_ui w
        = Inr \<lparr>status_code = 200,
               media_type =
                 ''application/vnd.openxmlformats-officedocument.presentationml.presentation'',
               headers = [(''Content-Disposition'', ''attachment; filename=Profil_IPB_dan_UI.pptx'')],
               content = StreamContent stream\<rparr>)"
  by (simp add: generate_ppt_ipb_ui_def StreamingResponse_def JSONResponse_def Let_def)

theorem document_route_responses_witness:
  "generate_ppt_ipb_ui (example_world\<lparr>Presentation :=
       Inl (Exn OtherException (ascii ''Package not found''))\<rparr>)
     = Inr \<lparr>status_code = 500, media_type = ''application/json'', headers = [],
            content = JSONContent (JObj [(''error'', JStr (ascii ''Package not found''))])\<rparr>
   \<and> generate_ppt_ipb_ui example_world
     = Inr \<lparr>status_code = 200,
            media_type =
              ''application/vnd.openxmlformats-officedocument.presentationml.presentation'',
            headers = [(''Content-Disposition'', ''attachment; filename=Profil_IPB_dan_UI.pptx'')],
            content = StreamContent \<lparr>getvalue = [80, 75, 3, 4], tell = 0\<rparr>\<rparr>"
  using document_route_responses [where w = "example_world\<lparr>Presentation :=
       Inl (Exn OtherException (ascii ''Package not found''))\<rparr>"
      and e = "Exn OtherException (ascii ''Package not found'')"]
    document_route_responses [where w = example_world
      and stream = "\<lparr>getvalue = [80, 75, 3, 4], tell = 0\<rparr>"]
    build_fails_without_template [where w = example_world
      and e = "Exn OtherException (ascii ''Package not found'')"]
    build_example_world
  by simp

section \<open>The two-column slide builder\<close>






lemma textboxes_of_view: "slide_view s = (n, t, bs) \<Longrightarrow> textboxes s = bs"
  by (simp add: slide_view_def)






section \<open>The assembled document\<close>

text \<open>From the views of the slides of a document to what the claims speak of.\<close>

lemma views_to_document:
  assumes "\<exists>ss. build = Inr (default_template\<lparr>slides := ss\<rparr>) \<and> map slide_view ss = vs"
  shows "\<exists>doc. build = Inr doc \<and> slide_count doc = length vs
           \<and> map (\<lambda>s. (layout_name (slide_layout s), slide_title s, length (textboxes s)))
                 (slides doc)
               = map (\<lambda>(n, t, bs). (n, t, length bs)) vs
           \<and> (vs \<noteq> [] \<longrightarrow> slides doc \<noteq> [] \<and> slide_view (last (slides doc)) = last vs)
           \<and> slide_width doc = 10 \<and> slide_height doc = 15 / 2"
proof -
  from assms obtain ss where b: "build = Inr (default_template\<lparr>slides := ss\<rparr>)"
    and v: "map slide_view ss = vs" by blast
  have 1: "slide_count (default_template\<lparr>slides := ss\<rparr>) = length vs"
    using v by (auto simp add: slide_count_def)
  have 2: "map (\<lambda>s. (layout_name (slide_layout s), slide_title s, length (textboxes s)))
                 (slides (default_template\<lparr>slides := ss\<rparr>))
               = map (\<lambda>(n, t, bs). (n, t, length bs)) vs"
    unfolding v [symmetric] by (simp add: slide_view_def)
  have 3: "vs \<noteq> [] \<longrightarrow> slides (default_template\<lparr>slides := ss\<rparr>) \<noteq> []
             \<and> slide_view (last (slides (default_template\<lparr>slides := ss\<rparr>))) = last vs"
    unfolding v [symmetric] by (auto simp add: last_map)
  have 4: "slide_width (default_template\<lparr>slides := ss\<rparr>) = 10"
    "slide_height (default_template\<lparr>slides := ss\<rparr>) = 15 / 2"
    by (simp_all add: default_template_def)
  from b 1 2 3 4 show ?thesis by blast
qed

lemma example_world_template: "Presentation example_world = Inr default_template"
  by (simp add: example_world_def)

lemma example_document:
  "\<exists>doc. build_ipb_ui_document example_world = Inr doc \<and> slide_count doc = 9
     \<and> slides doc \<noteq> []
     \<and> textboxes (last (slides doc)) =
         [TextBox (12 / 10) (22 / 10) 8 3
            \<lparr>paragraphs = [write_closing
                 (strftime_d_B_Y (full_month_name example_world) (datetime_now example_world))
                 empty_paragraph],
             word_wrap = Some False\<rparr>]
     \<and> slide_width doc = 10 \<and> slide_height doc = 15 / 2"
proof -
  from views_to_document [OF document_views [OF example_world_template]] obtain doc where
    "build_ipb_ui_document example_world = Inr doc" "slide_count doc = 9" "slides doc \<noteq> []"
    "slide_view (last (slides doc)) = (''Title Only'', [ascii ''Terima kasih''],
             [TextBox (12 / 10) (22 / 10) 8 3
                \<lparr>paragraphs = [write_closing
                                 (strftime_d_B_Y (full_month_name example_world)
                                    (datetime_now example_world))
                                 empty_paragraph],
                 word_wrap = Some False\<rparr>])"
    "slide_width doc = 10" "slide_height doc = 15 / 2"
    by (elim exE conjE) simp
  then show ?thesis by (auto dest: textboxes_of_view)
qed

lemma example_stamp:
  "strftime_d_B_Y (full_month_name example_world) (datetime_now example_world)
     = ascii ''07 May 2024''"
  by (simp add: strftime_d_B_Y_def example_world_def month_name_C_def two_digits_def
      decimal.simps digit_def ascii_def)

text \<open>
  Claim C1 says that the assembler produces 11 slides, with three bulleted slides for each
  of the two institutions. In the world \<open>example_world\<close> the document has 9 slides.
\<close>

theorem document_has_nine_slides_not_eleven:
  "map_sum id slide_count (build_ipb_ui_document example_world) = Inr 9
   \<and> map_sum id slide_count (build_ipb_ui_document example_world) \<noteq> Inr 11"
proof -
  from example_document obtain doc where
    "build_ipb_ui_document example_world = Inr doc" "slide_count doc = 9"
    by (elim exE conjE)
  then show ?thesis by simp
qed


text \<open>
  Claim C1, amended. On the default template the assembler returns a document of exactly
  9 slides, in this order: the title slide; three bulleted slides for IPB (overview,
  admissions, faculties); two bulleted slides for UI (overview, admissions); two
  two-column slides with the faculties of UI; the closing slide. Each slide is given by
  the name of its layout, its title and the number of its text boxes.
\<close>

theorem assembled_document_slides:
  assumes "Presentation w = Inr default_template"
  shows "\<exists>doc. build_ipb_ui_document w = Inr doc \<and> slide_count doc = 9
      \<and> map (\<lambda>s. (layout_name (slide_layout s), slide_title s, length (textboxes s))) (slides doc) =
         [(''Title Slide'', [ascii ''Profil IPB University & Universitas Indonesia''], 0),
          (''Title and Content'', [ascii ''IPB University '' @ [EN_DASH] @ ascii '' Ringkasan''], 0),
          (''Title and Content'', [ascii ''IPB '' @ [EN_DASH] @ ascii '' Jalur Masuk''], 0),
          (''Title and Content'', [ascii ''IPB '' @ [EN_DASH] @ ascii '' Fakultas & Sekolah''], 0),
          (''Title and Content'',
             [ascii ''Universitas Indonesia '' @ [EN_DASH] @ ascii '' Ringkasan''], 0),
          (''Title and Content'', [ascii ''UI '' @ [EN_DASH] @ ascii '' Jalur Masuk''], 0),
          (''Title Only'',
             [ascii ''UI '' @ [EN_DASH] @ ascii '' Fakultas (Kesehatan & Saintek)''], 2),
          (''Title Only'',
             [ascii ''UI '' @ [EN_DASH] @ ascii '' Fakultas (Soshum & Program Lain)''], 2),
          (''Title Only'', [ascii ''Terima kasih''], 1)]"
proof -
  from views_to_document [OF document_views [OF assms]] obtain doc where
    b: "build_ipb_ui_document w = Inr doc" and c: "slide_count doc = 9"
    and m: "map (\<lambda>s. (layout_name (slide_layout s), slide_title s, length (textboxes s)))
                 (slides doc) =
         [(''Title Slide'', [ascii ''Profil IPB University & Universitas Indonesia''], 0),
          (''Title and Content'', [ascii ''IPB University '' @ [EN_DASH] @ ascii '' Ringkasan''], 0),
          (''Title and Content'', [ascii ''IPB '' @ [EN_DASH] @ ascii '' Jalur Masuk''], 0),
          (''Title and Content'', [ascii ''IPB '' @ [EN_DASH] @ ascii '' Fakultas & Sekolah''], 0),
          (''Title and Content'',
             [ascii ''Universitas Indonesia '' @ [EN_DASH] @ ascii '' Ringkasan''], 0),
          (''Title and Content'', [ascii ''UI '' @ [EN_DASH] @ ascii '' Jalur Masuk''], 0),
          (''Title Only'',
             [ascii ''UI '' @ [EN_DASH] @ ascii '' Fakultas (Kesehatan & Saintek)''], 2),
          (''Title Only'',
             [ascii ''UI '' @ [EN_DASH] @ ascii '' Fakultas (Soshum & Program Lain)''], 2),
          (''Title Only'', [ascii ''Terima kasih''], 1)]"
    by (elim exE conjE) simp
  from b c m show ?thesis by (intro exI conjI)
qed


theorem assembled_document_slides_witness:
  "\<exists>doc. build_ipb_ui_document example_world = Inr doc \<and> slide_count doc = 9
      \<and> map (\<lambda>s. (layout_name (slide_layout s), slide_title s, length (textboxes s))) (slides doc) =
         [(''Title Slide'', [ascii ''Profil IPB University & Universitas Indonesia''], 0),
          (''Title and Content'', [ascii ''IPB University '' @ [EN_DASH] @ ascii '' Ringkasan''], 0),
          (''Title and Content'', [ascii ''IPB '' @ [EN_DASH] @ ascii '' Jalur Masuk''], 0),
          (''Title and Content'', [ascii ''IPB '' @ [EN_DASH] @ ascii '' Fakultas & Sekolah''], 0),
          (''Title and Content'',
             [ascii ''Universitas Indonesia '' @ [EN_DASH] @ ascii '' Ringkasan''], 0),
          (''Title and Content'', [ascii ''UI '' @ [EN_DASH] @ ascii '' Jalur Masuk''], 0),
          (''Title Only'',
             [ascii ''UI '' @ [EN_DASH] @ ascii '' Fakultas (Kesehatan & Saintek)''], 2),
          (''Title Only'',
             [ascii ''UI '' @ [EN_DASH] @ ascii '' Fakultas (Soshum & Program Lain)''], 2),
          (''Title Only'', [ascii ''Terima kasih''], 1)]"
  by (rule assembled_document_slides [OF example_world_template])

section \<open>The closing slide\<close>

lemma write_closing_empty:
  "paragraph_text (write_closing stamp empty_paragraph)
     = text_read_back (ascii ''Disusun otomatis pada '' @ stamp)"
  "font_size (p_font (write_closing stamp empty_paragraph)) = Some 18"
  "alignment (write_closing stamp empty_paragraph) = None"
  "level (write_closing stamp empty_paragraph) = 0"
  by (simp_all add: write_closing_def Let_def empty_paragraph_def
      del: text_read_back_simps)

text \<open>
  Claim C7 says that the text box of the closing slide is centered and that its text is
  the generation timestamp. In the world \<open>example_world\<close> the only paragraph of the box
  has no alignment set, the box (1.2 in from the left, 8 in wide; 2.2 in from the top,
  3 in high) is centered neither horizontally nor vertically on the slide of 10 by 7.5
  inches, and the text is the timestamp after the words \<open>Disusun otomatis pada\<close>.
\<close>

theorem closing_box_not_centered:
  "textboxes (last (slides (projr (build_ipb_ui_document example_world))))
     = [TextBox (12 / 10) (22 / 10) 8 3
          \<lparr>paragraphs =
             [\<lparr>p_content = [Run \<lparr>r_text = ascii ''Disusun otomatis pada 07 May 2024'',
                                 r_font = \<lparr>bold = None, font_size = None\<rparr>\<rparr>],
               level = 0, alignment = None,
               p_font = \<lparr>bold = None, font_size = Some 18\<rparr>\<rparr>],
           word_wrap = Some False\<rparr>]
   \<and> map alignment (concat (map (\<lambda>b. paragraphs (text_frame_of b))
         (textboxes (last (slides (projr (build_ipb_ui_document example_world)))))))
       \<noteq> [Some CENTER]
   \<and> 2 * (12 / 10) + 8 \<noteq> slide_width (projr (build_ipb_ui_document example_world))
   \<and> 2 * (22 / 10) + 3 \<noteq> slide_height (projr (build_ipb_ui_document example_world))
   \<and> ascii ''Disusun otomatis pada 07 May 2024''
       \<noteq> strftime_d_B_Y (full_month_name example_world) (datetime_now example_world)"
proof -
  from example_document obtain doc where
    b: "build_ipb_ui_document example_world = Inr doc"
    and t: "textboxes (last (slides doc)) =
         [TextBox (12 / 10) (22 / 10) 8 3
            \<lparr>paragraphs = [write_closing
                 (strftime_d_B_Y (full_month_name example_world) (datetime_now example_world))
                 empty_paragraph],
             word_wrap = Some False\<rparr>]"
    and w: "slide_width doc = 10" and h: "slide_height doc = 15 / 2"
    by (elim exE conjE)
  have p: "write_closing (ascii ''07 May 2024'') empty_paragraph
       = \<lparr>p_content = [Run \<lparr>r_text = ascii ''Disusun otomatis pada 07 May 2024'',
                                 r_font = \<lparr>bold = None, font_size = None\<rparr>\<rparr>],
               level = 0, alignment = None,
               p_font = \<lparr>bold = None, font_size = Some 18\<rparr>\<rparr>"
  proof -
    have "list_all plain_char (ascii ''Disusun otomatis pada 07 May 2024'')"
      "ascii ''Disusun otomatis pada 07 May 2024'' \<noteq> []"
      by (simp_all add: ascii_def plain_char_def)
    from set_paragraph_text_plain [OF this, of empty_paragraph] show ?thesis
      by (simp add: write_closing_def Let_def empty_paragraph_def default_font_def)
        (simp add: ascii_def)
  qed
  have n: "ascii ''Disusun otomatis pada 07 May 2024'' \<noteq> ascii ''07 May 2024''"
    by (simp add: ascii_def)
  show ?thesis
    using n by (simp add: b t w h example_stamp p)
qed

text \<open>
  Claim C7, amended. On the default template the last slide of the assembled document
  uses the layout \<open>Title Only\<close>, has the title \<open>Terima kasih\<close> and contains a single text
  box, 1.2 in from the left and 2.2 in from the top, 8 in wide and 3 in high. The box
  holds one paragraph, at 18 points, indent level 0 and with no alignment set, whose
  text is \<open>Disusun otomatis pada\<close> followed by the generation date formatted as the day
  on two digits, the full month name of the locale and the year. The month name stands
  in the text as the library reads it back; it is the month name itself whenever that
  holds no control character other than the horizontal tab.
\<close>

theorem closing_slide_contents:
  assumes "Presentation w = Inr default_template"
  shows "\<exists>doc tf p. build_ipb_ui_document w = Inr doc \<and> slides doc \<noteq> []
      \<and> layout_name (slide_layout (last (slides doc))) = ''Title Only''
      \<and> slide_title (last (slides doc)) = [ascii ''Terima kasih'']
      \<and> textboxes (last (slides doc)) = [TextBox (12 / 10) (22 / 10) 8 3 tf]
      \<and> paragraphs tf = [p]
      \<and> paragraph_text p
          = ascii ''Disusun otomatis pada '' @ two_digits (day (datetime_now w)) @ [32]
            @ text_read_back (full_month_name w (month (datetime_now w))) @ [32]
            @ decimal (year (datetime_now w))
      \<and> (list_all plain_char (full_month_name w (month (datetime_now w))) \<longrightarrow>
           paragraph_text p
             = ascii ''Disusun otomatis pada '' @ two_digits (day (datetime_now w)) @ [32]
               @ full_month_name w (month (datetime_now w)) @ [32]
               @ decimal (year (datetime_now w)))
      \<and> font_size (p_font p) = Some 18 \<and> alignment p = None \<and> level p = 0"
proof -
  let ?stamp = "strftime_d_B_Y (full_month_name w) (datetime_now w)"
  let ?p = "write_closing ?stamp empty_paragraph"
  let ?tf = "\<lparr>paragraphs = [?p], word_wrap = Some False\<rparr>"
  from views_to_document [OF document_views [OF assms]] obtain doc where
    b: "build_ipb_ui_document w = Inr doc" and n: "slides doc \<noteq> []"
    and v: "slide_view (last (slides doc))
              = (''Title Only'', [ascii ''Terima kasih''], [TextBox (12 / 10) (22 / 10) 8 3 ?tf])"
    by (elim exE conjE) simp
  from v have 1: "layout_name (slide_layout (last (slides doc))) = ''Title Only''"
    and 2: "slide_title (last (slides doc)) = [ascii ''Terima kasih'']"
    and 3: "textboxes (last (slides doc)) = [TextBox (12 / 10) (22 / 10) 8 3 ?tf]"
    by (simp_all add: slide_view_def)
  have 4: "paragraphs ?tf = [?p]" by simp
  have pre: "text_read_back (ascii ''Disusun otomatis pada '') = ascii ''Disusun otomatis pada ''"
    by (rule text_read_back_plain) (simp add: ascii_def plain_char_def)
  have sp: "text_read_back [32] = [32]"
    by (rule text_read_back_plain) (simp add: plain_char_def)
  have 5: "paragraph_text ?p
          = ascii ''Disusun otomatis pada '' @ two_digits (day (datetime_now w)) @ [32]
            @ text_read_back (full_month_name w (month (datetime_now w))) @ [32]
            @ decimal (year (datetime_now w))"
    unfolding write_closing_empty(1) strftime_d_B_Y_def text_read_back_simps(3) pre sp
      text_read_back_plain [OF plain_two_digits] text_read_back_plain [OF plain_decimal]
    by (rule refl)
  have 6: "list_all plain_char (full_month_name w (month (datetime_now w))) \<longrightarrow>
           paragraph_text ?p
             = ascii ''Disusun otomatis pada '' @ two_digits (day (datetime_now w)) @ [32]
               @ full_month_name w (month (datetime_now w)) @ [32]
               @ decimal (year (datetime_now w))"
    unfolding 5 by (simp add: text_read_back_plain)
  note 7 = write_closing_empty(2-4) [of ?stamp]
  show ?thesis
    by (rule exI [of _ doc], rule exI [of _ ?tf], rule exI [of _ ?p])
      (intro conjI b n 1 2 3 4 5 6 7)
qed

theorem closing_slide_contents_witness:
  "\<exists>doc tf p. build_ipb_ui_document example_world = Inr doc \<and> slides doc \<noteq> []
      \<and> layout_name (slide_layout (last (slides doc))) = ''Title Only''
      \<and> slide_title (last (slides doc)) = [ascii ''Terima kasih'']
      \<and> textboxes (last (slides doc)) = [TextBox (12 / 10) (22 / 10) 8 3 tf]
      \<and> paragraphs tf = [p]
      \<and> paragraph_text p = ascii ''Disusun otomatis pada 07 May 2024''
      \<and> font_size (p_font p) = Some 18 \<and> alignment p = None \<and> level p = 0"
proof -
  have m: "list_all plain_char (full_month_name example_world (month (datetime_now example_world)))"
    by (simp add: example_world_def month_name_C_def ascii_def plain_char_def)
  have e: "ascii ''Disusun otomatis pada '' @ two_digits (day (datetime_now example_world)) @ [32]
               @ full_month_name example_world (month (datetime_now example_world)) @ [32]
               @ decimal (year (datetime_now example_world))
             = ascii ''Disusun otomatis pada 07 May 2024''"
    using example_stamp by (simp add: strftime_d_B_Y_def ascii_def)
  from closing_slide_contents [OF example_world_template] obtain doc tf p where
    "build_ipb_ui_document example_world = Inr doc" "slides doc \<noteq> []"
    "layout_name (slide_layout (last (slides doc))) = ''Title Only''"
    "slide_title (last (slides doc)) = [ascii ''Terima kasih'']"
    "textboxes (last (slides doc)) = [TextBox (12 / 10) (22 / 10) 8 3 tf]"
    "paragraphs tf = [p]"
    "paragraph_text p = ascii ''Disusun otomatis pada 07 May 2024''"
    "font_size (p_font p) = Some 18" "alignment p = None" "level p = 0"
    using m unfolding e [symmetric] by (elim exE conjE) simp
  then show ?thesis by (intro exI conjI)
qed

section \<open>The serialized document\<close>

text \<open>
  The bytes of the returned buffer are those the library's serializer writes for the
  assembled document, and the buffer is positioned at offset 0. The assembled document
  depends on the world only through the template and the formatted date, and the buffer
  moreover through the serializer.
\<close>

lemma build_buffer_at_offset_0:
  assumes "build_ipb_ui_presentation w = Inr bio"
  shows "tell bio = 0
       \<and> (\<exists>doc. build_ipb_ui_document w = Inr doc \<and> save w doc = Inr (getvalue bio))"
  using assms
  by (auto simp add: build_ipb_ui_presentation_def and_then_def prs_save_def seek_def
      BytesIO_def split: sum.splits)

lemma document_determined_by_template_and_date:
  assumes "Presentation w = Presentation w'"
    and "strftime_d_B_Y (full_month_name w) (datetime_now w)
           = strftime_d_B_Y (full_month_name w') (datetime_now w')"
  shows "build_ipb_ui_document w = build_ipb_ui_document w'"
  using assms by (simp add: build_ipb_ui_document_def)

lemma buffer_determined_by_template_date_and_serializer:
  assumes "Presentation w = Presentation w'"
    and "strftime_d_B_Y (full_month_name w) (datetime_now w)
           = strftime_d_B_Y (full_month_name w') (datetime_now w')"
    and "save w = save w'"
  shows "build_ipb_ui_presentation w = build_ipb_ui_presentation w'"
  using document_determined_by_template_and_date [OF assms(1,2)] assms(3)
  by (simp add: build_ipb_ui_presentation_def prs_save_def)

end
